theory Spec2Isabelle
  imports Main "HOL-Library.Word"
begin

unbundle bit_operations_syntax

section \<open>Byte buffers and the 4-byte big-endian length prefix\<close>

type_synonym byte = "8 word"
type_synonym bytes = "byte list"

text \<open>
  \<open>buf.writeUInt32BE(value, 0)\<close> on a fresh 4-byte buffer, and Swift's
  \<open>UInt32(n).bigEndian\<close> as four bytes: the bytes of the value, most significant
  first. A value of \<open>2 ^ 32\<close> or more does not fit the prefix; here its low 32 bits are
  kept, and every statement below that depends on the prefix asks for a smaller value.
\<close>

definition writeUInt32BE :: "nat \<Rightarrow> bytes" where
  "writeUInt32BE n =
     (let w = (word_of_nat n :: 32 word)
      in [ucast (drop_bit 24 w), ucast (drop_bit 16 w), ucast (drop_bit 8 w), ucast w])"

text \<open>
  \<open>buf.readUInt32BE(0)\<close>. Both callers hold at least four bytes when they read
  (\<open>while (readBuffer.length >= 4)\<close> in the worklet, \<open>readExactly(bytes: 4)\<close> in the
  client), so the four indices are in range there.
\<close>

definition readUInt32BE :: "bytes \<Rightarrow> nat" where
  "readUInt32BE buf =
     unat (push_bit 24 (ucast (buf ! 0) :: 32 word) OR push_bit 16 (ucast (buf ! 1))
           OR push_bit 8 (ucast (buf ! 2)) OR ucast (buf ! 3))"

text \<open>\<open>buf.slice(start, end)\<close> for \<open>0 \<le> start \<le> end\<close>; indices past the end are clamped.\<close>

definition slice_buf :: "bytes \<Rightarrow> nat \<Rightarrow> nat \<Rightarrow> bytes" where
  "slice_buf buf start end = take (end - start) (drop start buf)"

section \<open>Worklet side: writeFramed and processFramedData (wdk-worklet.js)\<close>

text \<open>
  \<open>writeFramed(data)\<close> hands \<open>Buffer.concat([length, data])\<close> to \<open>BareIPC.write\<close>; the
  function below is the buffer that is written. There is no check of \<open>data.length\<close>.
\<close>

definition writeFramed :: "bytes \<Rightarrow> bytes" where
  "writeFramed data = writeUInt32BE (length data) @ data"

text \<open>
  The \<open>while\<close> loop of \<open>processFramedData\<close>. What is done with each extracted message
  is the parameter \<open>onMessage\<close>: the worklet parses and dispatches it, the framing test
  (test/test-framing.js) pushes it onto \<open>messages\<close>. The loop threads the state \<open>s\<close> that
  \<open>onMessage\<close> updates and returns the bytes left in \<open>readBuffer\<close>.
\<close>

function processFramedLoop :: "(bytes \<Rightarrow> 's \<Rightarrow> 's) \<Rightarrow> bytes \<Rightarrow> 's \<Rightarrow> bytes \<times> 's" where
  "processFramedLoop onMessage readBuffer s =
     (if 4 \<le> length readBuffer then
        (let messageLength = readUInt32BE readBuffer;
             totalLength = 4 + messageLength
         in if length readBuffer < totalLength then (readBuffer, s)
            else processFramedLoop onMessage (drop totalLength readBuffer)
                   (onMessage (slice_buf readBuffer 4 totalLength) s))
      else (readBuffer, s))"
  by pat_completeness auto
termination
  by (relation "measure (\<lambda>(onMessage, readBuffer, s). length readBuffer)") auto

declare processFramedLoop.simps [simp del]

text \<open>
  \<open>processFramedData(chunk)\<close> of the framing test: append the chunk to \<open>readBuffer\<close>, run the
  loop with a fresh \<open>messages\<close> array, return the messages (and the new \<open>readBuffer\<close>).
\<close>

definition push :: "bytes \<Rightarrow> bytes list \<Rightarrow> bytes list" where
  "push messageData messages = messages @ [messageData]"

definition processFramedData_messages :: "bytes \<Rightarrow> bytes \<Rightarrow> bytes \<times> bytes list" where
  "processFramedData_messages readBuffer chunk = processFramedLoop push (readBuffer @ chunk) []"

text \<open>
  A sequence of \<open>data\<close> events: each chunk is fed in turn, and the messages of every call
  are collected in order, as the test does with \<open>messages.push(...processFramedData(chunk))\<close>.
\<close>

fun feedChunks :: "bytes \<Rightarrow> bytes list \<Rightarrow> bytes \<times> bytes list" where
  "feedChunks readBuffer [] = (readBuffer, [])"
| "feedChunks readBuffer (chunk # chunks) =
     (let (readBuffer', messages) = processFramedData_messages readBuffer chunk;
          (readBuffer'', messages') = feedChunks readBuffer' chunks
      in (readBuffer'', messages @ messages'))"

section \<open>JSON values\<close>

text \<open>
  The values both sides exchange. A JavaScript \<open>undefined\<close> (a missing property) and a
  Swift \<open>nil\<close> are \<open>None\<close> of \<open>json option\<close>. Numbers are integers here: the ids and
  indices of the protocol; a number that is not an integer has no counterpart.
\<close>

datatype json =
    JNull
  | JBool bool
  | JNum int
  | JStr string
  | JArr "json list"
  | JObj "(string \<times> json) list"

text \<open>Decimal text of a natural number, as string interpolation prints it.\<close>

definition digit :: "nat \<Rightarrow> char" where
  "digit n = ''0123456789'' ! (n mod 10)"

fun decimal :: "nat \<Rightarrow> string" where
  "decimal n = (if n < 10 then [digit n] else decimal (n div 10) @ [digit (n mod 10)])"

declare decimal.simps [simp del]

section \<open>Swift client (WDKClient.swift)\<close>

datatype WDKError =
    ipcError string
  | rpcError string string
  | invalidResponse string
  | encodingError string

text \<open>
  What ends a client operation early: a thrown \<open>WDKError\<close>, an error thrown by
  \<open>JSONSerialization\<close>, the \<open>CancellationError\<close> that \<open>Task.sleep\<close> throws when the
  task is cancelled, or a runtime trap (\<open>requestId += 1\<close> on \<open>Int.max\<close>,
  \<open>UInt32(data.count)\<close> on a count that does not fit).
\<close>

datatype failure =
    Thrown WDKError
  | SerializationError
  | CancellationError
  | Trap

text \<open>
  The IPC pipe as the client sees it: the chunks that successive \<open>ipc.read()\<close> calls
  return (\<open>nil\<close> once the list is used up), and the buffers given to \<open>ipc.write\<close>.
\<close>

record ipc_channel =
  incoming :: "bytes list"
  outgoing :: "bytes list"

record WDKClient =
  worklet :: ipc_channel
  ipc :: "ipc_channel option"
  requestId :: int
  isWorkletStarted :: bool
  readBuffer :: bytes

text \<open>The stored properties as \<open>init(bundleName:)\<close> leaves them.\<close>

definition WDKClient_init :: "ipc_channel \<Rightarrow> WDKClient" where
  "WDKClient_init pipe =
     \<lparr>worklet = pipe, ipc = None, requestId = 0, isWorkletStarted = False, readBuffer = []\<rparr>"

text \<open>
  \<open>ensureWorkletStarted\<close>: nothing to do once started. On first use the worklet is
  started, then \<open>try await Task.sleep\<close> waits half a second, then the IPC is created
  and the flag is set. \<open>Task.sleep\<close> throws when the calling task is cancelled;
  \<open>cancelled\<close> says whether it is. In that case neither the IPC nor the flag is set.
\<close>

definition ensureWorkletStarted :: "bool \<Rightarrow> WDKClient \<Rightarrow> (failure + unit) \<times> WDKClient" where
  "ensureWorkletStarted cancelled c =
     (if isWorkletStarted c then (Inr (), c)
      else if cancelled then (Inl CancellationError, c)
      else (Inr (), c\<lparr>ipc := Some (worklet c), isWorkletStarted := True\<rparr>))"

text \<open>
  \<open>nextRequestId\<close>: \<open>requestId += 1; return requestId\<close>, run inside
  \<open>requestIdQueue.sync\<close>, so one whole step at a time. \<open>Int\<close> is 64 bits and traps on
  overflow.
\<close>

definition Int_max :: int where
  "Int_max = 2 ^ 63 - 1"

definition nextRequestId :: "WDKClient \<Rightarrow> (failure + int) \<times> WDKClient" where
  "nextRequestId c =
     (if requestId c = Int_max then (Inl Trap, c)
      else (Inr (requestId c + 1), c\<lparr>requestId := requestId c + 1\<rparr>))"

text \<open>\<open>writeFramed(data:)\<close> of the client.\<close>

definition UInt32_max :: nat where
  "UInt32_max = 2 ^ 32 - 1"

definition writeFramed_client :: "bytes \<Rightarrow> WDKClient \<Rightarrow> (failure + unit) \<times> WDKClient" where
  "writeFramed_client data c =
     (case ipc c of
        None \<Rightarrow> (Inl (Thrown (ipcError ''IPC not initialized'')), c)
      | Some ch \<Rightarrow>
          if UInt32_max < length data then (Inl Trap, c)
          else
            (let lengthData = writeUInt32BE (length data)
             in (Inr (), c\<lparr>ipc := Some (ch\<lparr>outgoing := outgoing ch @ [lengthData @ data]\<rparr>)\<rparr>)))"

text \<open>
  The \<open>while readBuffer.count < bytes\<close> loop of \<open>readExactly\<close>: keep appending chunks.
  The result says whether enough bytes arrived (\<open>False\<close>: \<open>ipc.read()\<close> returned \<open>nil\<close>
  first), and gives the buffer and the chunks not yet read.
\<close>

fun fillBuffer :: "nat \<Rightarrow> bytes \<Rightarrow> bytes list \<Rightarrow> bool \<times> bytes \<times> bytes list" where
  "fillBuffer n buf chunks =
     (if length buf < n then
        (case chunks of
           [] \<Rightarrow> (False, buf, [])
         | chunk # rest \<Rightarrow> fillBuffer n (buf @ chunk) rest)
      else (True, buf, chunks))"

declare fillBuffer.simps [simp del]

definition readExactly :: "nat \<Rightarrow> WDKClient \<Rightarrow> (failure + bytes) \<times> WDKClient" where
  "readExactly n c =
     (case ipc c of
        None \<Rightarrow> (Inl (Thrown (ipcError ''IPC not initialized'')), c)
      | Some ch \<Rightarrow>
          (case fillBuffer n (readBuffer c) (incoming ch) of
             (False, buf, rest) \<Rightarrow>
               (Inl (Thrown (ipcError ''Connection closed while reading'')),
                c\<lparr>readBuffer := buf, ipc := Some (ch\<lparr>incoming := rest\<rparr>)\<rparr>)
           | (True, buf, rest) \<Rightarrow>
               (Inr (take n buf),
                c\<lparr>readBuffer := drop n buf, ipc := Some (ch\<lparr>incoming := rest\<rparr>)\<rparr>)))"

text \<open>
  \<open>readFramed\<close>: the header, the guard \<open>length > 0 && length < 10_000_000\<close>, the body.
\<close>

definition readFramed :: "WDKClient \<Rightarrow> (failure + bytes) \<times> WDKClient" where
  "readFramed c =
     (case readExactly 4 c of
        (Inl e, c') \<Rightarrow> (Inl e, c')
      | (Inr lengthData, c') \<Rightarrow>
          (let len = readUInt32BE lengthData
           in if 0 < len \<and> len < 10000000 then readExactly len c'
              else (Inl (Thrown (ipcError (''Invalid message length: '' @ decimal len))), c')))"

text \<open>
  \<open>JSONSerialization\<close> is Foundation's: \<open>data(withJSONObject:)\<close> and
  \<open>jsonObject(with:)\<close> are parameters, \<open>None\<close> where they throw.
\<close>

record JSONSerialization =
  data_withJSONObject :: "json \<Rightarrow> bytes option"
  jsonObject_with :: "bytes \<Rightarrow> json option"

text \<open>
  \<open>call(method:params:)\<close>, of a task that is cancelled or not. The worklet is started
  first; only then is the id taken. The response is whatever frame is read next; its
  \<open>id\<close> is not looked at.
\<close>

definition call ::
  "JSONSerialization \<Rightarrow> bool \<Rightarrow> string \<Rightarrow> (string \<times> json) list \<Rightarrow> WDKClient
     \<Rightarrow> (failure + (string \<times> json) list) \<times> WDKClient" where
  "call J cancelled method params c0 =
     (case ensureWorkletStarted cancelled c0 of
        (Inl e, c) \<Rightarrow> (Inl e, c)
      | (Inr _, c) \<Rightarrow>
     (case nextRequestId c of
        (Inl e, c1) \<Rightarrow> (Inl e, c1)
      | (Inr id', c1) \<Rightarrow>
          (let request = JObj [(''jsonrpc'', JStr ''2.0''), (''id'', JNum id'),
                               (''method'', JStr method), (''params'', JObj params)]
           in case data_withJSONObject J request of
                None \<Rightarrow> (Inl SerializationError, c1)
              | Some requestData \<Rightarrow>
                  (case writeFramed_client requestData c1 of
                     (Inl e, c2) \<Rightarrow> (Inl e, c2)
                   | (Inr _, c2) \<Rightarrow>
                       (case readFramed c2 of
                          (Inl e, c3) \<Rightarrow> (Inl e, c3)
                        | (Inr responseData, c3) \<Rightarrow>
                            (case jsonObject_with J responseData of
                               None \<Rightarrow> (Inl SerializationError, c3)
                             | Some (JObj response) \<Rightarrow>
                                 (case map_of response ''error'' of
                                    Some (JObj error) \<Rightarrow>
                                      (let errorMessage =
                                             (case map_of error ''message'' of
                                                Some (JStr m) \<Rightarrow> m | _ \<Rightarrow> ''Unknown error'');
                                           errorCode =
                                             (case map_of error ''code'' of
                                                Some (JStr k) \<Rightarrow> k | _ \<Rightarrow> ''UNKNOWN'')
                                       in (Inl (Thrown (rpcError errorCode errorMessage)), c3))
                                  | _ \<Rightarrow>
                                      (case map_of response ''result'' of
                                         Some (JObj result) \<Rightarrow> (Inr result, c3)
                                       | _ \<Rightarrow> (Inl (Thrown (invalidResponse
                                                   ''Missing result in response'')), c3)))
                             | Some _ \<Rightarrow>
                                 (Inl (Thrown (invalidResponse ''Invalid JSON response'')), c3)))))))"

text \<open>Several id allocations in a row, in the order the queue runs them.\<close>

fun nextRequestIds :: "nat \<Rightarrow> WDKClient \<Rightarrow> (failure + int list) \<times> WDKClient" where
  "nextRequestIds 0 c = (Inr [], c)"
| "nextRequestIds (Suc n) c =
     (case nextRequestId c of
        (Inl e, c') \<Rightarrow> (Inl e, c')
      | (Inr id', c') \<Rightarrow>
          (case nextRequestIds n c' of
             (Inl e, c'') \<Rightarrow> (Inl e, c'')
           | (Inr ids, c'') \<Rightarrow> (Inr (id' # ids), c'')))"

text \<open>
  The bytes the client can still obtain: its \<open>readBuffer\<close> followed by the chunks not
  yet read. Used to state what the reading functions consume.
\<close>

definition pending_bytes :: "WDKClient \<Rightarrow> bytes" where
  "pending_bytes c =
     (case ipc c of
        None \<Rightarrow> readBuffer c
      | Some ch \<Rightarrow> readBuffer c @ concat (incoming ch))"

section \<open>Worklet: JavaScript values and errors\<close>

text \<open>Truthiness, \<open>typeof v === 'object'\<close>, property access and \<open>String(v)\<close>.\<close>

fun truthy :: "json option \<Rightarrow> bool" where
  "truthy None = False"
| "truthy (Some JNull) = False"
| "truthy (Some (JBool b)) = b"
| "truthy (Some (JNum n)) = (n \<noteq> 0)"
| "truthy (Some (JStr s)) = (s \<noteq> [])"
| "truthy (Some (JArr xs)) = True"
| "truthy (Some (JObj kvs)) = True"

fun typeof_object :: "json option \<Rightarrow> bool" where
  "typeof_object (Some JNull) = True"
| "typeof_object (Some (JArr xs)) = True"
| "typeof_object (Some (JObj kvs)) = True"
| "typeof_object v = False"

text \<open>
  \<open>v.key\<close> for the property names the worklet reads (\<open>id\<close>, \<open>method\<close>, \<open>config\<close>,
  \<open>networks\<close>, ...): defined on objects, \<open>undefined\<close> on every other value that is not
  \<open>null\<close> or \<open>undefined\<close>. Reading a property of \<open>null\<close> or \<open>undefined\<close> is a
  TypeError; the callers below deal with that case before they use \<open>get_prop\<close>.
\<close>

fun get_prop :: "json \<Rightarrow> string \<Rightarrow> json option" where
  "get_prop (JObj kvs) key = map_of kvs key"
| "get_prop v key = None"

definition prop_opt :: "json option \<Rightarrow> string \<Rightarrow> json option" where
  "prop_opt v key = (case v of None \<Rightarrow> None | Some j \<Rightarrow> get_prop j key)"

text \<open>
  \<open>Object.entries(v)\<close> for a value that is not \<open>null\<close> or \<open>undefined\<close>. A \<open>JObj\<close>
  lists its properties in the order in which \<open>Object.entries\<close> enumerates them.
\<close>

fun Object_entries :: "json \<Rightarrow> (string \<times> json) list" where
  "Object_entries (JObj kvs) = kvs"
| "Object_entries (JArr xs) = zip (map decimal [0..<length xs]) xs"
| "Object_entries (JStr s) = zip (map decimal [0..<length s]) (map (\<lambda>c. JStr [c]) s)"
| "Object_entries v = []"

definition Object_keys :: "json \<Rightarrow> string list" where
  "Object_keys v = map fst (Object_entries v)"

fun join :: "string \<Rightarrow> string list \<Rightarrow> string" where
  "join sep [] = []"
| "join sep [x] = x"
| "join sep (x # y # ys) = x @ sep @ join sep (y # ys)"

text \<open>
  Conversion to a string, as a template literal \<open>`${v}`\<close> and a computed property key
  \<open>table[v]\<close> do it; \<open>None\<close> where it throws a TypeError. An object parsed from JSON
  converts to \<open>[object Object]\<close> through the inherited \<open>toString\<close>, unless it has a
  property of its own named \<open>toString\<close>: that one is not a function, the inherited
  \<open>valueOf\<close> returns the object itself, and the conversion throws. An array joins the
  conversions of its elements (\<open>null\<close> gives the empty string) and throws if one of
  them does. An integer of magnitude below \<open>2 ^ 53\<close> converts to its decimal digits;
  for a larger one the text (rounded, and in exponent form from \<open>10 ^ 21\<close>) is the
  runtime's, given by \<open>num\<close>.
\<close>

fun sequence :: "'a option list \<Rightarrow> 'a list option" where
  "sequence [] = Some []"
| "sequence (None # xs) = None"
| "sequence (Some x # xs) = (case sequence xs of None \<Rightarrow> None | Some ys \<Rightarrow> Some (x # ys))"

fun String_of :: "(int \<Rightarrow> string) \<Rightarrow> json \<Rightarrow> string option" where
  "String_of num JNull = Some ''null''"
| "String_of num (JBool b) = Some (if b then ''true'' else ''false'')"
| "String_of num (JNum n) =
     Some (if \<bar>n\<bar> < 2 ^ 53
           then (if n < 0 then ''-'' @ decimal (nat (- n)) else decimal (nat n))
           else num n)"
| "String_of num (JStr s) = Some s"
| "String_of num (JArr xs) =
     (case sequence (map (\<lambda>x. case x of JNull \<Rightarrow> Some [] | _ \<Rightarrow> String_of num x) xs) of
        None \<Rightarrow> None
      | Some parts \<Rightarrow> Some (join '','' parts))"
| "String_of num (JObj kvs) =
     (case map_of kvs ''toString'' of
        None \<Rightarrow> Some ''[object Object]''
      | Some own \<Rightarrow> None)"

definition String_js :: "(int \<Rightarrow> string) \<Rightarrow> json option \<Rightarrow> string option" where
  "String_js num v = (case v of None \<Rightarrow> Some ''undefined'' | Some j \<Rightarrow> String_of num j)"

text \<open>An object literal: a property whose value is \<open>undefined\<close> is left out when the
  object is serialised, so it is left out here.\<close>

definition object :: "(string \<times> json option) list \<Rightarrow> json" where
  "object props =
     JObj (concat (map (\<lambda>(k, v). case v of None \<Rightarrow> [] | Some j \<Rightarrow> [(k, j)]) props))"

text \<open>An \<open>Error\<close>: its name, its message and the \<open>code\<close> property the handlers attach.\<close>

record js_error =
  err_name :: string
  err_message :: string
  err_code :: "string option"

definition Error :: "string \<Rightarrow> js_error" where
  "Error message = \<lparr>err_name = ''Error'', err_message = message, err_code = None\<rparr>"

text \<open>
  A TypeError of the runtime. Its message is the engine's wording; the messages below
  are short forms of it, and nothing in the worklet reads them.
\<close>

definition TypeError :: "string \<Rightarrow> js_error" where
  "TypeError message = \<lparr>err_name = ''TypeError'', err_message = message, err_code = None\<rparr>"

definition String_error :: "js_error \<Rightarrow> string" where
  "String_error e =
     (if err_message e = [] then err_name e else err_name e @ '': '' @ err_message e)"

text \<open>
  The error codes of \<open>exceptions/error-codes.js\<close>, a file that is not among the sources:
  the strings the README lists.
\<close>

definition BAD_REQUEST :: string where
  "BAD_REQUEST = ''BAD_REQUEST''"

definition WDK_MANAGER_INIT :: string where
  "WDK_MANAGER_INIT = ''WDK_MANAGER_INIT''"

definition createErrorWithCode :: "string \<Rightarrow> string \<Rightarrow> js_error" where
  "createErrorWithCode message code = (Error message)\<lparr>err_code := Some code\<rparr>"

text \<open>
  \<open>validateRequest(request, validationFn, fieldName)\<close>. The validation function has no
  effect but its result or its error, so its outcome is passed in.
\<close>

definition validateRequest :: "json option \<Rightarrow> js_error + 'a \<Rightarrow> string \<Rightarrow> js_error + 'a" where
  "validateRequest request validationFn fieldName =
     (if \<not> truthy request \<or> \<not> typeof_object request then
        Inl ((Error (fieldName @ '' must be an object''))\<lparr>err_code := Some BAD_REQUEST\<rparr>)
      else
        (case validationFn of
           Inl error \<Rightarrow>
             Inl (if err_code error = None \<or> err_code error = Some []
                  then error\<lparr>err_code := Some BAD_REQUEST\<rparr> else error)
         | Inr v \<Rightarrow> Inr v))"

section \<open>Worklet: the wallet instance and what the worklet does not define\<close>

text \<open>
  The wallet library (\<open>@tetherto/wdk\<close>) is a collaborator: an instance is the seed it
  was built from and the calls the handlers have made on it since, in order.
\<close>

datatype wdk_call =
    RegisterWallet string string json
  | RegisterProtocol "json option" "json option" string "json option"
  | Dispose

record WDK =
  seed :: bytes
  calls :: "wdk_call list"

definition WDK_new :: "bytes \<Rightarrow> WDK" where
  "WDK_new decryptedSeedBuffer = \<lparr>seed = decryptedSeedBuffer, calls = []\<rparr>"

definition WDK_dispose :: "WDK \<Rightarrow> WDK" where
  "WDK_dispose w = w\<lparr>calls := calls w @ [Dispose]\<rparr>"

text \<open>The session context: the one slot \<open>context.wdk\<close>, \<open>null\<close> when empty.\<close>

record wdk_context =
  wdk :: "WDK option"

definition walletManagers :: "(string \<times> string) list" where
  "walletManagers =
     [(''ethereum'', ''EVMWallet''), (''polygon'', ''EVMWallet''), (''arbitrum'', ''EVMWallet''),
      (''sepolia'', ''EVMWallet''), (''ethereum-erc4337'', ''EVMERC4337Wallet''),
      (''solana'', ''SolanaWallet'')]"

definition protocolManagers :: "(string \<times> string) list" where
  "protocolManagers = []"

text \<open>
  \<open>table[key]\<close> on one of these two plain objects: the entry of that name, or else
  what the name inherits from \<open>Object.prototype\<close>. An inherited function or object is
  truthy, so it passes \<open>if (!walletManager)\<close> like a real manager.
\<close>

definition Object_prototype_names :: "string list" where
  "Object_prototype_names =
     [''constructor'', ''__defineGetter__'', ''__defineSetter__'', ''hasOwnProperty'',
      ''__lookupGetter__'', ''__lookupSetter__'', ''isPrototypeOf'', ''propertyIsEnumerable'',
      ''toString'', ''valueOf'', ''__proto__'', ''toLocaleString'']"

definition object_index :: "(string \<times> string) list \<Rightarrow> string \<Rightarrow> string option" where
  "object_index table key =
     (case map_of table key of
        Some v \<Rightarrow> Some v
      | None \<Rightarrow>
          if key \<in> set Object_prototype_names then Some (''Object.prototype.'' @ key) else None)"

text \<open>A structured error as it travels in the response: code, message, optional data.\<close>

record structured_error =
  se_code :: string
  se_message :: string
  se_data :: "json option"

text \<open>
  A value a handler returns: one that \<open>JSON.stringify\<close> serialises, or one on which it
  throws a TypeError with the given message (a BigInt).
\<close>

datatype js_value = Json json | NotJson string

text \<open>
  What the worklet uses and does not define: \<open>JSON\<close>, the runtime's text of a number
  beyond the safe integers (see \<open>String_of\<close>), the helpers of \<open>utils/\<close> and
  \<open>exceptions/\<close> (files that are not among the sources), and the handlers that only
  call into the crypto, BIP-39 and wallet libraries. A validator gives \<open>Some error\<close>
  when it throws. \<open>createStructuredError\<close> is taken with the shape the wire format
  gives an error: a code string, a message string, optional data.
\<close>

record externals =
  JSON_parse :: "string \<Rightarrow> json option"
  JSON_stringify :: "json \<Rightarrow> string"
  Number_toString :: "int \<Rightarrow> string"
  createStructuredError :: "js_error \<Rightarrow> string option \<Rightarrow> structured_error"
  validateNonEmptyString :: "json option \<Rightarrow> string \<Rightarrow> js_error option"
  validateJSON :: "json option \<Rightarrow> string \<Rightarrow> js_error + json"
  validateBase64 :: "json option \<Rightarrow> string \<Rightarrow> js_error option"
  decrypt :: "json option \<Rightarrow> json option \<Rightarrow> js_error + bytes"
  generateEntropyAndEncrypt :: "json option \<Rightarrow> js_error + js_value"
  getMnemonicFromEntropy :: "json option \<Rightarrow> js_error + js_value"
  getSeedAndEntropyFromMnemonic :: "json option \<Rightarrow> js_error + js_value"
  callMethod :: "json option \<Rightarrow> wdk_context \<Rightarrow> (js_error + js_value) \<times> wdk_context"

text \<open>\<open>Buffer.from(string)\<close> and \<open>buffer.toString()\<close>: a string is its UTF-8 bytes.\<close>

definition Buffer_from :: "string \<Rightarrow> bytes" where
  "Buffer_from s = map (\<lambda>c. word_of_nat (of_char c)) s"

definition toString :: "bytes \<Rightarrow> string" where
  "toString b = map (\<lambda>x. char_of (unat x)) b"

section \<open>Worklet: the handlers (rpc-handlers.js)\<close>

definition workletStart :: "js_error + json" where
  "workletStart = Inr (JObj [(''status'', JStr ''started'')])"

text \<open>
  The validation function \<open>initializeWDK\<close> passes to \<open>validateRequest\<close>; its value is
  the parsed \<open>workletConfig\<close>.
\<close>

definition initializeWDK_validation :: "externals \<Rightarrow> json \<Rightarrow> js_error + json" where
  "initializeWDK_validation X init =
     (case validateNonEmptyString X (get_prop init ''config'') ''config'' of
        Some e \<Rightarrow> Inl e
      | None \<Rightarrow>
          (case validateJSON X (get_prop init ''config'') ''config'' of
             Inl e \<Rightarrow> Inl e
           | Inr workletConfig \<Rightarrow>
               if \<not> truthy (get_prop init ''encryptionKey'')
                  \<or> \<not> truthy (get_prop init ''encryptedSeed'')
               then Inl (createErrorWithCode
                           ''(encryptionKey + encryptedSeed) must be provided'' BAD_REQUEST)
               else
                 (case validateBase64 X (get_prop init ''encryptionKey'') ''encryptionKey'' of
                    Some e \<Rightarrow> Inl e
                  | None \<Rightarrow>
                      (case validateBase64 X (get_prop init ''encryptedSeed'') ''encryptedSeed'' of
                         Some e \<Rightarrow> Inl e
                       | None \<Rightarrow> Inr workletConfig))))"

text \<open>
  The loop of \<open>initializeWDK\<close> over \<open>Object.entries(workletConfig.networks)\<close>. It
  works on the instance already stored in \<open>context.wdk\<close>, so an error leaves the
  instance with the wallets registered so far.
\<close>

fun initializeWDK_wallets :: "(string \<times> json) list \<Rightarrow> WDK \<Rightarrow> js_error option \<times> WDK" where
  "initializeWDK_wallets [] w = (None, w)"
| "initializeWDK_wallets ((networkName, config) # rest) w =
     (if truthy (Some config) \<and> typeof_object (Some config) then
        (case object_index walletManagers networkName of
           None \<Rightarrow>
             (Some (createErrorWithCode
                      (''No wallet manager found for network: '' @ networkName) WDK_MANAGER_INIT), w)
         | Some walletManager \<Rightarrow>
             initializeWDK_wallets rest
               (w\<lparr>calls := calls w @ [RegisterWallet networkName walletManager config]\<rparr>))
      else initializeWDK_wallets rest w)"

text \<open>The loop of \<open>initializeWDK\<close> over \<open>Object.entries(workletConfig.protocols)\<close>.\<close>

fun initializeWDK_protocols ::
  "(int \<Rightarrow> string) \<Rightarrow> (string \<times> json) list \<Rightarrow> WDK \<Rightarrow> js_error option \<times> WDK" where
  "initializeWDK_protocols num [] w = (None, w)"
| "initializeWDK_protocols num ((protocolName, protocolConfig) # rest) w =
     (case object_index protocolManagers protocolName of
        None \<Rightarrow>
          (Some (createErrorWithCode
                   (''No protocol manager found for protocol: '' @ protocolName) WDK_MANAGER_INIT), w)
      | Some protocolManager \<Rightarrow>
          (case protocolConfig of
             JNull \<Rightarrow> (Some (TypeError ''Cannot read properties of null''), w)
           | _ \<Rightarrow>
               (case String_js num (get_prop protocolConfig ''network'') of
                  None \<Rightarrow> (Some (TypeError ''Cannot convert object to primitive value''), w)
                | Some network \<Rightarrow>
                    (case object_index walletManagers network of
                       None \<Rightarrow>
                         (Some (createErrorWithCode
                                  (''No wallet manager found for network: '' @ network)
                                  BAD_REQUEST), w)
                     | Some walletManager \<Rightarrow>
                         initializeWDK_protocols num rest
                           (w\<lparr>calls := calls w @
                               [RegisterProtocol (get_prop protocolConfig ''network'')
                                  (get_prop protocolConfig ''protocolLabel'') protocolManager
                                  (get_prop protocolConfig ''config'')]\<rparr>)))))"

definition initializeWDK ::
  "externals \<Rightarrow> json option \<Rightarrow> wdk_context \<Rightarrow> (js_error + json) \<times> wdk_context" where
  "initializeWDK X init context =
     (case init of
        None \<Rightarrow> (Inl (createErrorWithCode ''Init must be an object'' BAD_REQUEST), context)
      | Some i \<Rightarrow>
          if \<not> truthy init \<or> \<not> typeof_object init then
            (Inl (createErrorWithCode ''Init must be an object'' BAD_REQUEST), context)
          else
            (let context1 =
                   (case wdk context of
                      Some w \<Rightarrow> context\<lparr>wdk := Some (WDK_dispose w)\<rparr>
                    | None \<Rightarrow> context)
             in case validateRequest init (initializeWDK_validation X i) ''Init'' of
                  Inl e \<Rightarrow> (Inl e, context1)
                | Inr workletConfig \<Rightarrow>
                    (case (if truthy (Some workletConfig)
                           then get_prop workletConfig ''networks'' else None) of
                       None \<Rightarrow>
                         (Inl (createErrorWithCode
                                 ''At least one network configuration must be provided''
                                 BAD_REQUEST), context1)
                     | Some networks \<Rightarrow>
                         if \<not> truthy (Some networks) \<or> \<not> typeof_object (Some networks)
                            \<or> Object_keys networks = []
                         then (Inl (createErrorWithCode
                                      ''At least one network configuration must be provided''
                                      BAD_REQUEST), context1)
                         else
                           (case decrypt X (get_prop i ''encryptedSeed'')
                                   (get_prop i ''encryptionKey'') of
                              Inl error \<Rightarrow>
                                (Inl (createErrorWithCode
                                        (''Failed to decrypt seed: '' @ err_message error)
                                        BAD_REQUEST), context1)
                            | Inr decryptedSeedBuffer \<Rightarrow>
                                (case initializeWDK_wallets (Object_entries networks)
                                        (WDK_new decryptedSeedBuffer) of
                                   (Some e, w) \<Rightarrow> (Inl e, context1\<lparr>wdk := Some w\<rparr>)
                                 | (None, w) \<Rightarrow>
                                     (case get_prop workletConfig ''protocols'' of
                                        None \<Rightarrow>
                                          (Inr (JObj [(''status'', JStr ''initialized'')]),
                                           context1\<lparr>wdk := Some w\<rparr>)
                                      | Some protocols \<Rightarrow>
                                          if truthy (Some protocols) \<and> Object_keys protocols \<noteq> []
                                          then
                                            (case initializeWDK_protocols (Number_toString X)
                                                    (Object_entries protocols) w of
                                               (Some e, w') \<Rightarrow>
                                                 (Inl e, context1\<lparr>wdk := Some w'\<rparr>)
                                             | (None, w') \<Rightarrow>
                                                 (Inr (JObj [(''status'', JStr ''initialized'')]),
                                                  context1\<lparr>wdk := Some w'\<rparr>))
                                          else
                                            (Inr (JObj [(''status'', JStr ''initialized'')]),
                                             context1\<lparr>wdk := Some w\<rparr>)))))))"

text \<open>The loop of \<open>registerWallet\<close>, with the names pushed to \<open>registeredBlockchains\<close>.\<close>

fun registerWallet_wallets ::
  "(string \<times> json) list \<Rightarrow> WDK \<Rightarrow> string list \<Rightarrow> js_error option \<times> WDK \<times> string list" where
  "registerWallet_wallets [] w registeredBlockchains = (None, w, registeredBlockchains)"
| "registerWallet_wallets ((networkName, config) # rest) w registeredBlockchains =
     (if truthy (Some config) \<and> typeof_object (Some config) then
        (case object_index walletManagers networkName of
           None \<Rightarrow>
             (Some (createErrorWithCode
                      (''No wallet manager found for blockchain: '' @ networkName) BAD_REQUEST),
              w, registeredBlockchains)
         | Some walletManager \<Rightarrow>
             registerWallet_wallets rest
               (w\<lparr>calls := calls w @ [RegisterWallet networkName walletManager config]\<rparr>)
               (registeredBlockchains @ [networkName]))
      else registerWallet_wallets rest w registeredBlockchains)"

definition registerWallet ::
  "externals \<Rightarrow> json option \<Rightarrow> wdk_context \<Rightarrow> (js_error + json) \<times> wdk_context" where
  "registerWallet X request context =
     (case request of
        None \<Rightarrow> (Inl (TypeError ''Cannot destructure property of undefined''), context)
      | Some JNull \<Rightarrow> (Inl (TypeError ''Cannot destructure property of null''), context)
      | Some r \<Rightarrow>
          (case validateRequest request
                  (case validateNonEmptyString X (get_prop r ''config'') ''config'' of
                     Some e \<Rightarrow> Inl e
                   | None \<Rightarrow> validateJSON X (get_prop r ''config'') ''config'')
                  ''RegisterWalletRequest'' of
             Inl e \<Rightarrow> (Inl e, context)
           | Inr workletConfig \<Rightarrow>
               (case (if truthy (Some workletConfig) \<and> typeof_object (Some workletConfig)
                      then get_prop workletConfig ''networks'' else None) of
                  None \<Rightarrow>
                    (Inl (createErrorWithCode
                            ''config must be an object with network configurations''
                            BAD_REQUEST), context)
                | Some networks \<Rightarrow>
                    if \<not> truthy (Some networks) \<or> \<not> typeof_object (Some networks) then
                      (Inl (createErrorWithCode
                              ''config must be an object with network configurations''
                              BAD_REQUEST), context)
                    else
                      (case wdk context of
                         None \<Rightarrow>
                           (Inl (createErrorWithCode
                                   ''WDK not initialized. Call initializeWDK first.''
                                   WDK_MANAGER_INIT), context)
                       | Some w \<Rightarrow>
                           (case registerWallet_wallets (Object_entries networks) w [] of
                              (Some e, w', registeredBlockchains) \<Rightarrow>
                                (Inl e, context\<lparr>wdk := Some w'\<rparr>)
                            | (None, w', registeredBlockchains) \<Rightarrow>
                                if registeredBlockchains = [] then
                                  (Inl (createErrorWithCode
                                          ''no valid network configurations provided''
                                          BAD_REQUEST), context\<lparr>wdk := Some w'\<rparr>)
                                else
                                  (Inr (JObj [(''status'', JStr ''registered''),
                                              (''blockchains'',
                                               JStr (JSON_stringify X
                                                       (JArr (map JStr registeredBlockchains))))]),
                                   context\<lparr>wdk := Some w'\<rparr>))))))"

text \<open>The loop of \<open>registerProtocol\<close>.\<close>

fun registerProtocol_protocols ::
  "(int \<Rightarrow> string) \<Rightarrow> (string \<times> json) list \<Rightarrow> WDK \<Rightarrow> js_error option \<times> WDK" where
  "registerProtocol_protocols num [] w = (None, w)"
| "registerProtocol_protocols num ((protocolName, protocolConfig) # rest) w =
     (if truthy (Some protocolConfig) \<and> typeof_object (Some protocolConfig) then
        (case object_index protocolManagers protocolName of
           None \<Rightarrow>
             (Some (createErrorWithCode
                      (''No protocol manager found for protocol: '' @ protocolName) BAD_REQUEST), w)
         | Some protocolManager \<Rightarrow>
             (case String_js num (get_prop protocolConfig ''network'') of
                None \<Rightarrow> (Some (TypeError ''Cannot convert object to primitive value''), w)
              | Some network \<Rightarrow>
                  (case object_index walletManagers network of
                     None \<Rightarrow>
                       (Some (createErrorWithCode
                                (''No wallet manager found for network: '' @ network)
                                BAD_REQUEST), w)
                   | Some walletManager \<Rightarrow>
                       registerProtocol_protocols num rest
                         (w\<lparr>calls := calls w @
                             [RegisterProtocol (get_prop protocolConfig ''network'')
                                (get_prop protocolConfig ''protocolLabel'') protocolManager
                                (get_prop protocolConfig ''config'')]\<rparr>))))
      else registerProtocol_protocols num rest w)"

definition registerProtocol ::
  "externals \<Rightarrow> json option \<Rightarrow> wdk_context \<Rightarrow> (js_error + json) \<times> wdk_context" where
  "registerProtocol X request context =
     (case request of
        None \<Rightarrow> (Inl (TypeError ''Cannot destructure property of undefined''), context)
      | Some JNull \<Rightarrow> (Inl (TypeError ''Cannot destructure property of null''), context)
      | Some r \<Rightarrow>
          (case validateJSON X (get_prop r ''config'') ''config'' of
             Inl e \<Rightarrow> (Inl e, context)
           | Inr JNull \<Rightarrow> (Inl (TypeError ''Cannot destructure property of null''), context)
           | Inr parsed \<Rightarrow>
               (case wdk context of
                  None \<Rightarrow>
                    (Inl (createErrorWithCode
                            ''WDK not initialized. Call initializeWDK first.''
                            WDK_MANAGER_INIT), context)
                | Some w \<Rightarrow>
                    (case get_prop parsed ''protocols'' of
                       None \<Rightarrow>
                         (Inl (TypeError ''Cannot convert undefined or null to object''), context)
                     | Some JNull \<Rightarrow>
                         (Inl (TypeError ''Cannot convert undefined or null to object''), context)
                     | Some protocols \<Rightarrow>
                         (case registerProtocol_protocols (Number_toString X)
                                 (Object_entries protocols) w of
                            (Some e, w') \<Rightarrow> (Inl e, context\<lparr>wdk := Some w'\<rparr>)
                          | (None, w') \<Rightarrow>
                              (Inr (JObj [(''status'', JStr ''registered'')]),
                               context\<lparr>wdk := Some w'\<rparr>))))))"

text \<open>
  \<open>dispose\<close>: the instance, if there is one, is disposed and the slot is cleared.
\<close>

definition dispose :: "wdk_context \<Rightarrow> (js_error + json) \<times> wdk_context" where
  "dispose context =
     (case wdk context of
        Some w \<Rightarrow> (Inr (JObj [(''status'', JStr ''disposed'')]), context\<lparr>wdk := None\<rparr>)
      | None \<Rightarrow> (Inr (JObj [(''status'', JStr ''disposed'')]), context))"

section \<open>Worklet: dispatch and responses (wdk-worklet.js)\<close>

text \<open>
  What reaches the \<open>catch\<close> of \<open>handleJsonRpcMessage\<close>. \<open>withErrorHandling\<close> throws
  \<open>new Error(JSON.stringify(structuredError))\<close>, and the \<open>catch\<close> gets the structured
  error back with \<open>JSON.parse(error.message)\<close>: that pair is \<open>StructuredError\<close>. The other
  errors thrown inside the \<open>try\<close> are the one for an unknown method and the TypeError
  of \<open>JSON.stringify\<close>; their messages are not JSON text, so \<open>JSON.parse\<close> throws on
  them and the \<open>catch\<close> uses the error as it is: \<open>PlainError\<close>.
\<close>

datatype thrown = StructuredError structured_error | PlainError js_error

definition withErrorHandling ::
  "externals \<Rightarrow> (js_error + 'a) \<times> wdk_context \<Rightarrow> (thrown + 'a) \<times> wdk_context" where
  "withErrorHandling X outcome =
     (case outcome of
        (Inl error, context) \<Rightarrow>
          (Inl (StructuredError (createStructuredError X error None)), context)
      | (Inr v, context) \<Rightarrow> (Inr v, context))"

definition returns_json :: "(js_error + json) \<times> wdk_context \<Rightarrow> (js_error + js_value) \<times> wdk_context" where
  "returns_json outcome = (case outcome of (r, context) \<Rightarrow> (map_sum (\<lambda>e. e) Json r, context))"

text \<open>The \<open>switch (method)\<close>: the value of \<open>result\<close>, or what is thrown.\<close>

definition dispatch ::
  "externals \<Rightarrow> json option \<Rightarrow> json option \<Rightarrow> wdk_context
     \<Rightarrow> (thrown + js_value) \<times> wdk_context" where
  "dispatch X method params context =
     (if method = Some (JStr ''workletStart'') then
        withErrorHandling X (returns_json (workletStart, context))
      else if method = Some (JStr ''generateEntropyAndEncrypt'') then
        withErrorHandling X (generateEntropyAndEncrypt X params, context)
      else if method = Some (JStr ''getMnemonicFromEntropy'') then
        withErrorHandling X (getMnemonicFromEntropy X params, context)
      else if method = Some (JStr ''getSeedAndEntropyFromMnemonic'') then
        withErrorHandling X (getSeedAndEntropyFromMnemonic X params, context)
      else if method = Some (JStr ''initializeWDK'') then
        withErrorHandling X (returns_json (initializeWDK X params context))
      else if method = Some (JStr ''callMethod'') then
        withErrorHandling X (callMethod X params context)
      else if method = Some (JStr ''registerWallet'') then
        withErrorHandling X (returns_json (registerWallet X params context))
      else if method = Some (JStr ''registerProtocol'') then
        withErrorHandling X (returns_json (registerProtocol X params context))
      else if method = Some (JStr ''dispose'') then
        withErrorHandling X (returns_json (dispose context))
      else
        (case String_js (Number_toString X) method of
           None \<Rightarrow>
             (Inl (PlainError (TypeError ''Cannot convert object to primitive value'')), context)
         | Some name \<Rightarrow> (Inl (PlainError (Error (''Unknown method: '' @ name))), context)))"

text \<open>The \<open>errorResponse\<close> object the \<open>catch\<close> builds.\<close>

definition errorResponse :: "thrown \<Rightarrow> json" where
  "errorResponse t =
     (case t of
        StructuredError structuredError \<Rightarrow>
          object [(''message'', Some (JStr (se_message structuredError))),
                  (''code'', Some (JStr (se_code structuredError))),
                  (''data'', se_data structuredError)]
      | PlainError error \<Rightarrow>
          object [(''message'',
                   Some (JStr (if err_message error \<noteq> [] then err_message error
                               else String_error error))),
                  (''code'',
                   Some (JStr (case err_code error of
                                 None \<Rightarrow> ''INTERNAL_ERROR''
                               | Some c \<Rightarrow> if c \<noteq> [] then c else ''INTERNAL_ERROR'')))])"

definition success_envelope :: "json option \<Rightarrow> json \<Rightarrow> json" where
  "success_envelope id' result =
     object [(''jsonrpc'', Some (JStr ''2.0'')), (''id'', id'), (''result'', Some result)]"

definition error_envelope :: "json option \<Rightarrow> thrown \<Rightarrow> json" where
  "error_envelope id' t =
     object [(''jsonrpc'', Some (JStr ''2.0'')), (''id'', id'), (''error'', Some (errorResponse t))]"

text \<open>
  \<open>handleJsonRpcMessage(message, context)\<close>, run to its end. The state is the context
  and the list of buffers given to \<open>BareIPC.write\<close> so far.

  Of the logging only one effect is kept. The first statement of the \<open>try\<close> is
  \<open>logger.info(`JSON-RPC request: ${method}`, params)\<close>, and the first statement of
  the \<open>catch\<close> is \<open>logger.error(`JSON-RPC error: ${method}`, error)\<close>. When the
  conversion of \<open>method\<close> to a string throws, it throws in the \<open>try\<close> and again in
  the \<open>catch\<close>: the function ends there, before either \<open>writeFramed\<close>, and nothing is
  written. When it does not throw, the later template literals on \<open>method\<close> do not
  throw either.

  The loop of \<open>processFramedData\<close> does not await this function. With several
  messages in flight, the writes of different messages can therefore come in another
  order than the one obtained here by running each message to its end; what is written
  for one message is the same.
\<close>

definition handleJsonRpcMessage ::
  "externals \<Rightarrow> json \<Rightarrow> wdk_context \<times> bytes list \<Rightarrow> wdk_context \<times> bytes list" where
  "handleJsonRpcMessage X message st =
     (case st of
        (context, written) \<Rightarrow>
          (let id' = get_prop message ''id'';
               method = get_prop message ''method'';
               params = get_prop message ''params''
           in case String_js (Number_toString X) method of
                None \<Rightarrow> (context, written)
              | Some name \<Rightarrow>
                  (case dispatch X method params context of
                     (Inr (Json result), context') \<Rightarrow>
                       (context',
                        written @ [writeFramed (Buffer_from (JSON_stringify X
                                     (success_envelope id' result)))])
                   | (Inr (NotJson m), context') \<Rightarrow>
                       (context',
                        written @ [writeFramed (Buffer_from (JSON_stringify X
                                     (error_envelope id' (PlainError (TypeError m)))))])
                   | (Inl t, context') \<Rightarrow>
                       (context',
                        written @ [writeFramed (Buffer_from (JSON_stringify X
                                     (error_envelope id' t)))]))))"

text \<open>
  The body of the loop of \<open>processFramedData\<close>: parse the message and hand it on if it
  says \<open>jsonrpc: '2.0'\<close>. A parse error, and the TypeError of reading \<open>jsonrpc\<close> from
  \<open>null\<close>, are caught and logged; nothing else is done with the message.
\<close>

definition processMessage ::
  "externals \<Rightarrow> bytes \<Rightarrow> wdk_context \<times> bytes list \<Rightarrow> wdk_context \<times> bytes list" where
  "processMessage X messageData st =
     (case JSON_parse X (toString messageData) of
        None \<Rightarrow> st
      | Some JNull \<Rightarrow> st
      | Some message \<Rightarrow>
          if get_prop message ''jsonrpc'' = Some (JStr ''2.0'')
          then handleJsonRpcMessage X message st else st)"

text \<open>The worklet's module state: \<open>readBuffer\<close>, the context, and what was written.\<close>

record worklet_state =
  js_readBuffer :: bytes
  js_context :: wdk_context
  js_written :: "bytes list"

definition worklet_init :: worklet_state where
  "worklet_init = \<lparr>js_readBuffer = [], js_context = \<lparr>wdk = None\<rparr>, js_written = []\<rparr>"

definition processFramedData :: "externals \<Rightarrow> bytes \<Rightarrow> worklet_state \<Rightarrow> worklet_state" where
  "processFramedData X chunk st =
     (case processFramedLoop (processMessage X) (js_readBuffer st @ chunk)
             (js_context st, js_written st) of
        (rest, (context, written)) \<Rightarrow>
          \<lparr>js_readBuffer = rest, js_context = context, js_written = written\<rparr>)"

text \<open>The nine \<open>case\<close> labels of the \<open>switch\<close>.\<close>

definition method_names :: "string list" where
  "method_names =
     [''workletStart'', ''generateEntropyAndEncrypt'', ''getMnemonicFromEntropy'',
      ''getSeedAndEntropyFromMnemonic'', ''initializeWDK'', ''callMethod'', ''registerWallet'',
      ''registerProtocol'', ''dispose'']"

text \<open>
  A response envelope for a request with this id: \<open>jsonrpc\<close> is \<open>2.0\<close>, the id is the
  request's, and there is either a \<open>result\<close> and no \<open>error\<close>, or no \<open>result\<close> and an
  \<open>error\<close> object whose \<open>code\<close> and \<open>message\<close> are strings.
\<close>

definition is_response_for :: "json option \<Rightarrow> json \<Rightarrow> bool" where
  "is_response_for id' response =
     (get_prop response ''jsonrpc'' = Some (JStr ''2.0'')
      \<and> get_prop response ''id'' = id'
      \<and> (case get_prop response ''result'' of
            Some r \<Rightarrow> get_prop response ''error'' = None
          | None \<Rightarrow>
              (case get_prop response ''error'' of
                 None \<Rightarrow> False
               | Some error \<Rightarrow>
                   (case get_prop error ''code'' of
                      Some (JStr c) \<Rightarrow>
                        (case get_prop error ''message'' of
                           Some (JStr m) \<Rightarrow> True
                         | _ \<Rightarrow> False)
                    | _ \<Rightarrow> False))))"

section \<open>Stand-ins for the concrete runs\<close>

text \<open>
  The concrete runs further down need values for what is a parameter above. The
  serialiser stand-in writes every request as the text \<open>request\<close> and reads the text
  \<open>response-2\<close> as a success response carrying id 2.
\<close>

definition example_response :: json where
  "example_response =
     JObj [(''jsonrpc'', JStr ''2.0''), (''id'', JNum 2),
           (''result'', JObj [(''status'', JStr ''disposed'')])]"

definition example_serialization :: JSONSerialization where
  "example_serialization =
     \<lparr>data_withJSONObject = (\<lambda>j. Some (Buffer_from ''request'')),
      jsonObject_with =
        (\<lambda>b. if b = Buffer_from ''response-2'' then Some example_response else None)\<rparr>"

definition example_pipe :: "bytes list \<Rightarrow> ipc_channel" where
  "example_pipe chunks = \<lparr>incoming = chunks, outgoing = []\<rparr>"

text \<open>
  The worklet stand-ins. \<open>JSON.parse\<close> reads four texts: \<open>request-7\<close> is a \<open>dispose\<close>
  request with id 7, \<open>request-8\<close> a request with id 8 for \<open>splitMnemonic\<close> (a handler
  the \<open>switch\<close> has no case for), \<open>request-9\<close> a message with id 9 whose method is
  the object \<open>{toString: 1}\<close>, \<open>null\<close> is \<open>null\<close>; it throws on any other text.
  \<open>JSON.stringify\<close> prints a value without escapes, and a large number is printed in
  full. The validators accept non-empty
  strings; \<open>createStructuredError\<close> keeps the error's code, or the default, or \<open>UNKNOWN\<close>.
  The remaining handlers and \<open>decrypt\<close> fail.
\<close>

definition example_request_7 :: json where
  "example_request_7 =
     JObj [(''jsonrpc'', JStr ''2.0''), (''id'', JNum 7), (''method'', JStr ''dispose'')]"

definition example_request_8 :: json where
  "example_request_8 =
     JObj [(''jsonrpc'', JStr ''2.0''), (''id'', JNum 8), (''method'', JStr ''splitMnemonic''),
           (''params'', JObj [(''shares'', JNum 3), (''threshold'', JNum 2)])]"

definition example_request_9 :: json where
  "example_request_9 =
     JObj [(''jsonrpc'', JStr ''2.0''), (''id'', JNum 9),
           (''method'', JObj [(''toString'', JNum 1)])]"

fun show_json :: "json \<Rightarrow> string" where
  "show_json JNull = ''null''"
| "show_json (JBool b) = (if b then ''true'' else ''false'')"
| "show_json (JNum n) = (if n < 0 then ''-'' @ decimal (nat (- n)) else decimal (nat n))"
| "show_json (JStr s) = [CHR 0x22] @ s @ [CHR 0x22]"
| "show_json (JArr xs) = ''['' @ join '','' (map show_json xs) @ '']''"
| "show_json (JObj kvs) =
     ''{'' @ join '','' (map (\<lambda>kv. [CHR 0x22] @ fst kv @ [CHR 0x22] @ '':'' @ show_json (snd kv)) kvs)
       @ ''}''"

definition example_validate_string :: "json option \<Rightarrow> string \<Rightarrow> js_error option" where
  "example_validate_string v fieldName =
     (case v of
        Some (JStr s) \<Rightarrow>
          if s = [] then Some (Error (fieldName @ '' must be a non-empty string'')) else None
      | _ \<Rightarrow> Some (Error (fieldName @ '' must be a non-empty string'')))"

definition example_externals :: externals where
  "example_externals =
     \<lparr>JSON_parse =
        (\<lambda>s. if s = ''request-7'' then Some example_request_7
             else if s = ''request-8'' then Some example_request_8
             else if s = ''request-9'' then Some example_request_9
             else if s = ''null'' then Some JNull
             else None),
      JSON_stringify = show_json,
      Number_toString = (\<lambda>n. if n < 0 then ''-'' @ decimal (nat (- n)) else decimal (nat n)),
      createStructuredError =
        (\<lambda>error defaultErrorCode.
           \<lparr>se_code = (case err_code error of
                         Some c \<Rightarrow> c
                       | None \<Rightarrow> (case defaultErrorCode of Some d \<Rightarrow> d | None \<Rightarrow> ''UNKNOWN'')),
            se_message = err_message error,
            se_data = None\<rparr>),
      validateNonEmptyString = example_validate_string,
      validateJSON = (\<lambda>v fieldName. Inl (Error (fieldName @ '' must be valid JSON''))),
      validateBase64 = example_validate_string,
      decrypt = (\<lambda>encrypted key. Inl (Error ''decryption failed'')),
      generateEntropyAndEncrypt = (\<lambda>request. Inl (Error ''not available'')),
      getMnemonicFromEntropy = (\<lambda>request. Inl (Error ''not available'')),
      getSeedAndEntropyFromMnemonic = (\<lambda>request. Inl (Error ''not available'')),
      callMethod = (\<lambda>payload context. (Inl (Error ''not available''), context))\<rparr>"

section \<open>Properties of the codec\<close>

lemma length_writeUInt32BE [simp]: "length (writeUInt32BE n) = 4"
  by (simp add: writeUInt32BE_def Let_def)

lemma UInt32BE_bytes_word:
  "push_bit 24 (ucast (ucast (drop_bit 24 w) :: byte) :: 32 word)
     OR push_bit 16 (ucast (ucast (drop_bit 16 w) :: byte))
     OR push_bit 8 (ucast (ucast (drop_bit 8 w) :: byte))
     OR ucast (ucast w :: byte) = w"
proof (rule bit_word_eqI)
  fix n :: nat
  assume "n < LENGTH(32)"
  then have n: "n < 32" by simp
  consider "n < 8" | "8 \<le> n" "n < 16" | "16 \<le> n" "n < 24" | "24 \<le> n" "n < 32"
    using n by linarith
  then show "bit (push_bit 24 (ucast (ucast (drop_bit 24 w) :: byte) :: 32 word)
          OR push_bit 16 (ucast (ucast (drop_bit 16 w) :: byte))
          OR push_bit 8 (ucast (ucast (drop_bit 8 w) :: byte))
          OR ucast (ucast w :: byte)) n = bit w n"
    by cases (auto simp add: bit_simps)
qed

lemma read_write_UInt32BE:
  assumes "n < 2 ^ 32"
  shows "readUInt32BE (writeUInt32BE n @ rest) = n"
proof -
  have "unat (word_of_nat n :: 32 word) = n"
    using assms by (simp add: unat_of_nat)
  then show ?thesis
    by (simp add: readUInt32BE_def writeUInt32BE_def Let_def UInt32BE_bytes_word)
qed

lemma readUInt32BE_append:
  assumes "4 \<le> length buf"
  shows "readUInt32BE (buf @ extra) = readUInt32BE buf"
proof -
  have "(buf @ extra) ! 0 = buf ! 0" "(buf @ extra) ! 1 = buf ! 1"
       "(buf @ extra) ! 2 = buf ! 2" "(buf @ extra) ! 3 = buf ! 3"
    using assms by (auto simp add: nth_append)
  then show ?thesis
    by (simp only: readUInt32BE_def)
qed

text \<open>One whole frame at the head of the buffer is extracted and handed to \<open>onMessage\<close>.\<close>

lemma processFramedLoop_frame:
  assumes "length p < 2 ^ 32"
  shows "processFramedLoop onMessage (writeFramed p @ rest) s
           = processFramedLoop onMessage rest (onMessage p s)"
proof -
  have len: "readUInt32BE (writeFramed p @ rest) = length p"
    using assms by (simp add: writeFramed_def read_write_UInt32BE)
  have sl: "slice_buf (writeFramed p @ rest) 4 (4 + length p) = p"
    by (simp add: slice_buf_def writeFramed_def)
  have dr: "drop (4 + length p) (writeFramed p @ rest) = rest"
    by (simp add: writeFramed_def)
  have ge: "4 \<le> length (writeFramed p @ rest)"
    by (simp add: writeFramed_def)
  have nl: "\<not> length (writeFramed p @ rest) < 4 + length p"
    by (simp add: writeFramed_def)
  show ?thesis
    by (subst processFramedLoop.simps) (simp only: len sl dr ge nl Let_def if_True if_False)
qed

text \<open>
  The loop is restartable: running it on a buffer and then again on what it left plus
  new bytes is the same as running it once on everything.
\<close>

lemma processFramedLoop_append:
  "processFramedLoop onMessage (buf @ extra) s
     = (case processFramedLoop onMessage buf s of
          (rest, s') \<Rightarrow> processFramedLoop onMessage (rest @ extra) s')"
proof (induction onMessage buf s rule: processFramedLoop.induct)
  case (1 onMessage rb s)
  show ?case
  proof (cases "4 \<le> length rb \<and> \<not> length rb < 4 + readUInt32BE rb")
    case False
    then have "processFramedLoop onMessage rb s = (rb, s)"
      by (subst processFramedLoop.simps) (auto simp add: Let_def)
    then show ?thesis by simp
  next
    case True
    let ?total = "4 + readUInt32BE rb"
    let ?msg = "slice_buf rb 4 ?total"
    have step: "processFramedLoop onMessage rb s
                  = processFramedLoop onMessage (drop ?total rb) (onMessage ?msg s)"
      using True by (subst processFramedLoop.simps) (simp add: Let_def)
    have hdr: "readUInt32BE (rb @ extra) = readUInt32BE rb"
      using True by (simp add: readUInt32BE_append)
    have sl: "slice_buf (rb @ extra) 4 ?total = ?msg"
      using True by (simp add: slice_buf_def)
    have dr: "drop ?total (rb @ extra) = drop ?total rb @ extra"
      using True by simp
    have "processFramedLoop onMessage (rb @ extra) s
            = processFramedLoop onMessage (drop ?total rb @ extra) (onMessage ?msg s)"
      using True by (subst processFramedLoop.simps) (simp add: Let_def hdr sl dr)
    also have "\<dots> = (case processFramedLoop onMessage (drop ?total rb) (onMessage ?msg s) of
                       (rest, s') \<Rightarrow> processFramedLoop onMessage (rest @ extra) s')"
      using True by (intro "1.IH") auto
    finally show ?thesis by (simp add: step)
  qed
qed

text \<open>
  Whatever is done with the messages, they are the ones the collecting loop of the test
  extracts, handled in that order.
\<close>

lemma processFramedLoop_push:
  "processFramedLoop push buf acc
     = (case processFramedLoop push buf [] of (rest, messages) \<Rightarrow> (rest, acc @ messages))"
proof (induction "length buf" arbitrary: buf acc rule: less_induct)
  case less
  let ?total = "4 + readUInt32BE buf"
  let ?msg = "slice_buf buf 4 ?total"
  show ?case
  proof (cases "4 \<le> length buf \<and> \<not> length buf < ?total")
    case False
    then have stop: "\<And>f t. processFramedLoop f buf t = (buf, t)"
      by (subst processFramedLoop.simps) (auto simp add: Let_def)
    show ?thesis by (simp add: stop)
  next
    case True
    have step: "\<And>t. processFramedLoop push buf t
                  = processFramedLoop push (drop ?total buf) (t @ [?msg])"
      using True by (subst processFramedLoop.simps) (simp add: Let_def push_def)
    have shorter: "length (drop ?total buf) < length buf"
      using True by (simp only: length_drop) arith
    obtain r ms where rest: "processFramedLoop push (drop ?total buf) [] = (r, ms)"
      by (cases "processFramedLoop push (drop ?total buf) []")
    have a: "processFramedLoop push (drop ?total buf) (acc @ [?msg]) = (r, (acc @ [?msg]) @ ms)"
      using less [OF shorter, of "acc @ [?msg]"] by (simp add: rest)
    have b: "processFramedLoop push (drop ?total buf) ([] @ [?msg]) = (r, [?msg] @ ms)"
      using less [OF shorter, of "[?msg]"] by (simp add: rest)
    show ?thesis
      by (simp only: step a b) simp
  qed
qed

lemma processFramedLoop_fold:
  "processFramedLoop onMessage buf s
     = (case processFramedLoop push buf [] of
          (rest, messages) \<Rightarrow> (rest, fold onMessage messages s))"
proof (induction onMessage buf s rule: processFramedLoop.induct)
  case (1 onMessage rb s)
  let ?total = "4 + readUInt32BE rb"
  let ?msg = "slice_buf rb 4 ?total"
  show ?case
  proof (cases "4 \<le> length rb \<and> \<not> length rb < ?total")
    case False
    then have stop: "\<And>f t. processFramedLoop f rb t = (rb, t)"
      by (subst processFramedLoop.simps) (auto simp add: Let_def)
    show ?thesis by (simp add: stop)
  next
    case True
    have step: "\<And>f t. processFramedLoop f rb t
                  = processFramedLoop f (drop ?total rb) (f ?msg t)"
      using True by (subst processFramedLoop.simps) (simp add: Let_def)
    obtain r ms where rest: "processFramedLoop push (drop ?total rb) [] = (r, ms)"
      by (cases "processFramedLoop push (drop ?total rb) []")
    have a: "processFramedLoop onMessage (drop ?total rb) (onMessage ?msg s)
               = (r, fold onMessage ms (onMessage ?msg s))"
      using True "1.IH" [of "readUInt32BE rb" ?total] by (simp add: rest)
    have b: "processFramedLoop push (drop ?total rb) (push ?msg []) = (r, [?msg] @ ms)"
      using processFramedLoop_push [of "drop ?total rb" "push ?msg []"]
      by (simp add: rest push_def)
    show ?thesis
      by (simp only: step a b) simp
  qed
qed

text \<open>What the loop leaves in \<open>rb\<close> holds no complete frame.\<close>

lemma processFramedLoop_rest:
  "processFramedLoop onMessage' (fst (processFramedLoop onMessage buf s)) t
     = (fst (processFramedLoop onMessage buf s), t)"
proof (induction onMessage buf s rule: processFramedLoop.induct)
  case (1 onMessage rb s)
  show ?case
  proof (cases "4 \<le> length rb \<and> \<not> length rb < 4 + readUInt32BE rb")
    case False
    then have stop: "\<And>f t. processFramedLoop f rb t = (rb, t)"
      by (subst processFramedLoop.simps) (auto simp add: Let_def)
    show ?thesis by (simp add: stop)
  next
    case True
    let ?total = "4 + readUInt32BE rb"
    have step: "processFramedLoop onMessage rb s
                  = processFramedLoop onMessage (drop ?total rb)
                      (onMessage (slice_buf rb 4 ?total) s)"
      using True by (subst processFramedLoop.simps) (simp add: Let_def)
    show ?thesis
      unfolding step using True by (intro "1.IH") auto
  qed
qed

lemma feedChunks_concat:
  assumes "processFramedLoop push buf [] = (buf, [])"
  shows "feedChunks buf chunks = processFramedLoop push (buf @ concat chunks) []"
  using assms
proof (induction chunks arbitrary: buf)
  case Nil
  then show ?case by simp
next
  case (Cons c cs)
  obtain r ms where first: "processFramedLoop push (buf @ c) [] = (r, ms)"
    by (cases "processFramedLoop push (buf @ c) []")
  have "processFramedLoop push r [] = (r, [])"
    using processFramedLoop_rest [of push push "buf @ c" "[]" "[]"] by (simp add: first)
  then have IH: "feedChunks r cs = processFramedLoop push (r @ concat cs) []"
    by (rule Cons.IH)
  have "processFramedLoop push (buf @ concat (c # cs)) []
          = processFramedLoop push (r @ concat cs) ms"
    using processFramedLoop_append [of push "buf @ c" "concat cs" "[]"] by (simp add: first)
  also have "\<dots> = (case processFramedLoop push (r @ concat cs) [] of
                      (rest, messages) \<Rightarrow> (rest, ms @ messages))"
    by (rule processFramedLoop_push)
  finally show ?case
    by (simp add: processFramedData_messages_def first IH split: prod.splits)
qed

lemma processFramedLoop_frames:
  assumes "\<forall>p \<in> set ps. length p < 2 ^ 32"
  shows "processFramedLoop push (concat (map writeFramed ps)) acc = ([], acc @ ps)"
  using assms
proof (induction ps arbitrary: acc)
  case Nil
  show ?case by (subst processFramedLoop.simps) simp
next
  case (Cons p ps)
  then show ?case
    by (simp add: processFramedLoop_frame push_def)
qed

section \<open>Client: reading from the stream\<close>

lemma fillBuffer_stream:
  "n \<le> length (buf @ concat chunks) \<Longrightarrow>
     \<exists>buf' rest. fillBuffer n buf chunks = (True, buf', rest)
        \<and> buf' @ concat rest = buf @ concat chunks \<and> n \<le> length buf'"
proof (induction chunks arbitrary: buf)
  case Nil
  then show ?case by (subst fillBuffer.simps) simp
next
  case (Cons chunk chunks)
  show ?case
  proof (cases "length buf < n")
    case False
    then show ?thesis by (subst fillBuffer.simps) simp
  next
    case True
    have "n \<le> length ((buf @ chunk) @ concat chunks)"
      using Cons.prems by simp
    from Cons.IH [OF this] obtain buf' rest where
      "fillBuffer n (buf @ chunk) chunks = (True, buf', rest)"
      "buf' @ concat rest = (buf @ chunk) @ concat chunks" "n \<le> length buf'"
      by blast
    then show ?thesis
      using True by (subst fillBuffer.simps) simp
  qed
qed

text \<open>
  \<open>readExactly\<close> returns the next \<open>n\<close> bytes of the stream however they are chunked,
  and consumes exactly those.
\<close>

lemma readExactly_stream:
  assumes "ipc c = Some ch" and "pending_bytes c = xs @ ys"
  shows "fst (readExactly (length xs) c) = Inr xs
         \<and> pending_bytes (snd (readExactly (length xs) c)) = ys
         \<and> (\<exists>ch'. ipc (snd (readExactly (length xs) c)) = Some ch' \<and> outgoing ch' = outgoing ch)
         \<and> requestId (snd (readExactly (length xs) c)) = requestId c"
proof -
  have all: "readBuffer c @ concat (incoming ch) = xs @ ys"
    using assms by (simp add: pending_bytes_def)
  then have "length xs \<le> length (readBuffer c @ concat (incoming ch))"
    by simp
  from fillBuffer_stream [OF this] obtain buf' rest where
    f: "fillBuffer (length xs) (readBuffer c) (incoming ch) = (True, buf', rest)"
    and e: "buf' @ concat rest = readBuffer c @ concat (incoming ch)"
    and l: "length xs \<le> length buf'"
    by blast
  have "buf' @ concat rest = xs @ ys" using e all by simp
  then have t: "take (length xs) buf' = xs" and d: "drop (length xs) buf' @ concat rest = ys"
    using l by (metis append_eq_append_conv_if)+
  show ?thesis
    using assms(1) by (simp add: readExactly_def f t d pending_bytes_def)
qed

lemma readFramed_stream:
  assumes "ipc c = Some ch" and "pending_bytes c = writeFramed p @ rest"
    and "0 < length p" and "length p < 10000000"
  shows "fst (readFramed c) = Inr p \<and> pending_bytes (snd (readFramed c)) = rest
         \<and> (\<exists>ch'. ipc (snd (readFramed c)) = Some ch' \<and> outgoing ch' = outgoing ch)
         \<and> requestId (snd (readFramed c)) = requestId c"
proof -
  let ?hdr = "writeUInt32BE (length p)"
  have p1: "pending_bytes c = ?hdr @ (p @ rest)"
    using assms(2) by (simp add: writeFramed_def)
  obtain r1 c1 where r: "readExactly 4 c = (r1, c1)" by (cases "readExactly 4 c")
  from readExactly_stream [OF assms(1) p1]
  have h: "r1 = Inr ?hdr" "pending_bytes c1 = p @ rest"
     and "\<exists>ch'. ipc c1 = Some ch' \<and> outgoing ch' = outgoing ch" and q: "requestId c1 = requestId c"
    by (simp_all add: r)
  then obtain ch1 where c1: "ipc c1 = Some ch1" "outgoing ch1 = outgoing ch" by blast
  have len: "readUInt32BE ?hdr = length p"
    using read_write_UInt32BE [of "length p" "[]"] assms(4) by simp
  have rf: "readFramed c = readExactly (length p) c1"
    using assms(3,4) by (simp add: readFramed_def r h len)
  show ?thesis
    using readExactly_stream [OF c1(1) h(2)] c1(2) q by (simp add: rf)
qed

text \<open>A declared length outside the guard: the header is consumed, nothing else.\<close>

lemma readFramed_invalid_length:
  assumes "ipc c = Some ch" and "pending_bytes c = writeUInt32BE n @ rest"
    and "n < 2 ^ 32" and "n = 0 \<or> 10000000 \<le> n"
  shows "fst (readFramed c) = Inl (Thrown (ipcError (''Invalid message length: '' @ decimal n)))
         \<and> pending_bytes (snd (readFramed c)) = rest"
proof -
  let ?hdr = "writeUInt32BE n"
  obtain r1 c1 where r: "readExactly 4 c = (r1, c1)" by (cases "readExactly 4 c")
  from readExactly_stream [OF assms(1,2)]
  have h: "r1 = Inr ?hdr" "pending_bytes c1 = rest"
    by (simp_all add: r)
  have len: "readUInt32BE ?hdr = n"
    using read_write_UInt32BE [of n "[]"] assms(3) by simp
  show ?thesis
    using assms(4) by (auto simp add: readFramed_def r h len)
qed

lemma processFramedLoop_Nil: "processFramedLoop onMessage [] s = ([], s)"
  by (subst processFramedLoop.simps) simp

lemma processFramedData_messages_frame:
  assumes "length p < 2 ^ 32"
  shows "processFramedData_messages [] (writeFramed p) = ([], [p])"
  using processFramedLoop_frame [OF assms, of push "[]" "[]"]
  by (simp add: processFramedData_messages_def processFramedLoop_Nil push_def)

section \<open>Framing: any chunking yields the same messages\<close>

text \<open>
  C2. For every sequence of payloads \<open>p1..pn\<close> (empty ones included) whose lengths fit the
  4-byte prefix, and for every way of cutting the concatenation of their frames into
  chunks (single bytes, cuts inside a length prefix, one chunk), feeding the chunks to
  the worklet's decoder in order emits exactly \<open>[p1, ..., pn]\<close> and leaves the buffer
  empty. The client reads by pulling: \<open>readFramed\<close> returns the payload of the next frame
  of the stream and consumes exactly that frame, however the stream is chunked, for a
  payload of 1 to 9,999,999 bytes.
\<close>

theorem feedChunks_roundtrip:
  assumes "\<forall>p \<in> set ps. length p < 2 ^ 32"
    and "concat chunks = concat (map writeFramed ps)"
  shows "feedChunks [] chunks = ([], ps)
         \<and> (ipc c = Some ch \<and> pending_bytes c = writeFramed p @ rest
              \<and> 0 < length p \<and> length p < 10000000 \<longrightarrow>
              fst (readFramed c) = Inr p \<and> pending_bytes (snd (readFramed c)) = rest)"
proof -
  have "processFramedLoop push [] [] = ([], [])"
    by (subst processFramedLoop.simps) simp
  then have "feedChunks [] chunks = processFramedLoop push ([] @ concat chunks) []"
    by (rule feedChunks_concat)
  also have "\<dots> = processFramedLoop push (concat (map writeFramed ps)) []"
    by (simp add: assms(2))
  also have "\<dots> = ([], [] @ ps)"
    using assms(1) by (rule processFramedLoop_frames)
  finally have "feedChunks [] chunks = ([], ps)"
    by simp
  then show ?thesis
    using readFramed_stream [of c ch p rest] by simp
qed

theorem feedChunks_roundtrip_witness:
  "length ([] :: bytes) < 2 ^ 32 \<and> length [1, 2, 3 :: byte] < 2 ^ 32
   \<and> length [123, 125 :: byte] < 2 ^ 32
   \<and> concat [[0, 0], [0, 0, 0, 0], [0, 3, 1], [2, 3, 0, 0, 0], [2, 123], [125 :: byte]]
       = concat (map writeFramed [[], [1, 2, 3], [123, 125]])
   \<and> feedChunks [] [[0, 0], [0, 0, 0, 0], [0, 3, 1], [2, 3, 0, 0, 0], [2, 123], [125]]
       = ([], [[], [1, 2, 3], [123, 125]])
   \<and> fst (readFramed (snd (ensureWorkletStarted False
             (WDKClient_init (example_pipe [[0, 0], [0, 3, 1], [2, 3, 9]]))))) = Inr [1, 2, 3]
   \<and> pending_bytes (snd (readFramed (snd (ensureWorkletStarted False
             (WDKClient_init (example_pipe [[0, 0], [0, 3, 1], [2, 3, 9]])))))) = [9]"
proof -
  let ?c = "snd (ensureWorkletStarted False (WDKClient_init (example_pipe [[0, 0], [0, 3, 1], [2, 3, 9]])))"
  have a: "\<forall>p \<in> set [[], [1, 2, 3], [123, 125 :: byte]]. length p < 2 ^ 32"
    by simp
  have b: "concat [[0, 0], [0, 0, 0, 0], [0, 3, 1], [2, 3, 0, 0, 0], [2, 123], [125 :: byte]]
             = concat (map writeFramed [[], [1, 2, 3], [123, 125]])"
    by (simp add: writeFramed_def writeUInt32BE_def)
  have i: "ipc ?c = Some (example_pipe [[0, 0], [0, 3, 1], [2, 3, 9]])"
    by (simp add: ensureWorkletStarted_def WDKClient_init_def)
  have q: "pending_bytes ?c = writeFramed [1, 2, 3] @ [9]"
    by (simp add: pending_bytes_def ensureWorkletStarted_def WDKClient_init_def example_pipe_def
        writeFramed_def writeUInt32BE_def)
  show ?thesis
    using a b i q
      feedChunks_roundtrip [OF a b, of ?c "example_pipe [[0, 0], [0, 3, 1], [2, 3, 9]]"
        "[1, 2, 3]" "[9]"]
    by simp
qed

section \<open>The empty frame\<close>

text \<open>
  C4. Encoding the empty payload gives the four zero bytes, and the worklet's decoder
  emits the empty payload for them; the client's \<open>readFramed\<close> throws on the same frame,
  since its guard asks for \<open>length > 0\<close>.
\<close>

theorem empty_frame_client_rejects:
  "writeFramed [] = [0, 0, 0, 0]
   \<and> processFramedData_messages [] (writeFramed []) = ([], [[]])
   \<and> fst (readFramed (snd (ensureWorkletStarted False (WDKClient_init (example_pipe [writeFramed []])))))
       = Inl (Thrown (ipcError ''Invalid message length: 0''))"
proof -
  have a: "writeFramed [] = [0, 0, 0, 0]"
    by (simp add: writeFramed_def writeUInt32BE_def)
  have b: "processFramedData_messages [] (writeFramed []) = ([], [[]])"
    by (rule processFramedData_messages_frame) simp
  let ?c = "snd (ensureWorkletStarted False (WDKClient_init (example_pipe [writeFramed []])))"
  have i: "ipc ?c = Some (example_pipe [writeFramed []])"
    by (simp add: ensureWorkletStarted_def WDKClient_init_def)
  have p: "pending_bytes ?c = writeUInt32BE 0 @ []"
    by (simp add: pending_bytes_def ensureWorkletStarted_def WDKClient_init_def example_pipe_def
        writeFramed_def)
  have "fst (readFramed ?c) = Inl (Thrown (ipcError (''Invalid message length: '' @ decimal 0)))"
    using readFramed_invalid_length [OF i p] by simp
  then have c: "fst (readFramed ?c) = Inl (Thrown (ipcError ''Invalid message length: 0''))"
    by (simp add: decimal.simps digit_def)
  show ?thesis using a b c by simp
qed

section \<open>The maximum frame size\<close>

text \<open>
  The worklet encodes a payload of 10,000,001 bytes, and its decoder accepts the frame:
  neither \<open>writeFramed\<close> nor \<open>processFramedData\<close> compares a length with a maximum.
\<close>

theorem oversize_frame_counterexample:
  "writeFramed (replicate 10000001 0) = [0, 152, 150, 129] @ replicate 10000001 0
   \<and> processFramedData_messages [] ([0, 152, 150, 129] @ replicate 10000001 0)
       = ([], [replicate 10000001 0])"
proof -
  have "writeUInt32BE 10000001 = [0, 152, 150, 129]"
    by (simp add: writeUInt32BE_def)
  then have a: "writeFramed (replicate 10000001 0) = [0, 152, 150, 129] @ replicate 10000001 0"
    unfolding writeFramed_def length_replicate by (simp only:)
  have "(10000001 :: nat) < 2 ^ 32"
    by simp
  then have "length (replicate 10000001 (0 :: byte)) < 2 ^ 32"
    by (simp only: length_replicate)
  then have "processFramedData_messages [] (writeFramed (replicate 10000001 0))
               = ([], [replicate 10000001 0])"
    by (rule processFramedData_messages_frame)
  then show ?thesis
    using a by (simp only: simp_thms)
qed

text \<open>
  C3, as the code has it. Encoding never refuses a payload for its size: for every
  payload that fits the 4-byte prefix, the worklet's \<open>writeFramed\<close> and the client's
  \<open>writeFramed\<close> emit the prefix, whose value is the payload's length, followed by the
  whole payload. On the decoding side, the client's \<open>readFramed\<close> checks the declared
  length: one above 10,000,000 makes it throw \<open>ipcError\<close> once the four header bytes
  are consumed, with no payload byte consumed.
\<close>

theorem frame_size_checks:
  assumes "length p < 2 ^ 32"
    and "ipc c = Some ch"
    and "ipc c' = Some ch'"
    and "pending_bytes c' = writeUInt32BE n @ rest"
    and "10000000 < n" and "n < 2 ^ 32"
  shows "length (writeFramed p) = length p + 4
         \<and> readUInt32BE (writeFramed p) = length p
         \<and> drop 4 (writeFramed p) = p
         \<and> writeFramed_client p c
             = (Inr (), c\<lparr>ipc := Some (ch\<lparr>outgoing := outgoing ch @ [writeFramed p]\<rparr>)\<rparr>)
         \<and> fst (readFramed c')
             = Inl (Thrown (ipcError (''Invalid message length: '' @ decimal n)))
         \<and> pending_bytes (snd (readFramed c')) = rest"
proof -
  have a: "length (writeFramed p) = length p + 4" "drop 4 (writeFramed p) = p"
    by (simp_all add: writeFramed_def)
  have a': "readUInt32BE (writeFramed p) = length p"
    using assms(1) by (simp add: writeFramed_def read_write_UInt32BE)
  have "\<not> UInt32_max < length p"
    using assms(1) by (simp add: UInt32_max_def)
  then have b: "writeFramed_client p c
                  = (Inr (), c\<lparr>ipc := Some (ch\<lparr>outgoing := outgoing ch @ [writeFramed p]\<rparr>)\<rparr>)"
    using assms(2) by (simp add: writeFramed_client_def writeFramed_def Let_def)
  have "n = 0 \<or> 10000000 \<le> n"
    using assms(5) by simp
  from readFramed_invalid_length [OF assms(3,4,6) this] a a' b show ?thesis
    by simp
qed

theorem frame_size_checks_witness:
  "readUInt32BE (writeFramed [1]) = 1
   \<and> drop 4 (writeFramed [1]) = [1]
   \<and> writeFramed_client [1] (snd (ensureWorkletStarted False (WDKClient_init (example_pipe []))))
       = (Inr (), (snd (ensureWorkletStarted False (WDKClient_init (example_pipe []))))
                    \<lparr>ipc := Some ((example_pipe [])\<lparr>outgoing := [] @ [writeFramed [1]]\<rparr>)\<rparr>)
   \<and> fst (readFramed (snd (ensureWorkletStarted False
             (WDKClient_init (example_pipe [[0, 152], [150, 129, 7], [7]])))))
       = Inl (Thrown (ipcError (''Invalid message length: '' @ decimal 10000001)))
   \<and> pending_bytes (snd (readFramed (snd (ensureWorkletStarted False
             (WDKClient_init (example_pipe [[0, 152], [150, 129, 7], [7]])))))) = [7, 7]"
proof -
  let ?c = "snd (ensureWorkletStarted False (WDKClient_init (example_pipe [])))"
  let ?c' = "snd (ensureWorkletStarted False (WDKClient_init (example_pipe [[0, 152], [150, 129, 7], [7]])))"
  have 1: "length [1 :: byte] < 2 ^ 32" by simp
  have 2: "ipc ?c = Some (example_pipe [])"
    by (simp add: ensureWorkletStarted_def WDKClient_init_def)
  have 3: "ipc ?c' = Some (example_pipe [[0, 152], [150, 129, 7], [7]])"
    by (simp add: ensureWorkletStarted_def WDKClient_init_def)
  have 4: "pending_bytes ?c' = writeUInt32BE 10000001 @ [7, 7]"
    by (simp add: pending_bytes_def ensureWorkletStarted_def WDKClient_init_def example_pipe_def
        writeUInt32BE_def)
  have 5: "(10000000 :: nat) < 10000001" by simp
  have 6: "(10000001 :: nat) < 2 ^ 32" by simp
  show ?thesis
    using frame_size_checks [OF 1 2 3 4 5 6] by (simp add: example_pipe_def)
qed

section \<open>Request ids\<close>

lemma requestId_readExactly [simp]: "requestId (snd (readExactly n c)) = requestId c"
  by (simp add: readExactly_def split: option.split prod.split bool.split)

lemma requestId_readFramed [simp]: "requestId (snd (readFramed c)) = requestId c"
proof -
  obtain r1 c1 where r: "readExactly 4 c = (r1, c1)" by (cases "readExactly 4 c")
  have "requestId c1 = requestId c"
    using requestId_readExactly [of 4 c] by (simp add: r)
  then show ?thesis
    by (cases r1) (simp_all add: readFramed_def r Let_def)
qed

lemma requestId_writeFramed_client [simp]:
  "requestId (snd (writeFramed_client d c)) = requestId c"
  by (simp add: writeFramed_client_def Let_def split: option.split)

lemma requestId_ensureWorkletStarted [simp]:
  "requestId (snd (ensureWorkletStarted cancelled c)) = requestId c"
  by (simp add: ensureWorkletStarted_def)

lemma ensureWorkletStarted_ok:
  "isWorkletStarted c \<or> \<not> cancelled \<Longrightarrow>
     ensureWorkletStarted cancelled c = (Inr (), snd (ensureWorkletStarted cancelled c))"
  by (auto simp add: ensureWorkletStarted_def)

lemma upt_1_Suc_Suc: "[1..<Suc (Suc n)] = 1 # map Suc [1..<Suc n]"
proof -
  have "map Suc [1..<Suc n] = [Suc 1..<Suc (Suc n)]"
    by (rule map_Suc_upt)
  moreover have "[1..<Suc (Suc n)] = 1 # [Suc 1..<Suc (Suc n)]"
    by (rule upt_conv_Cons) simp
  ultimately show ?thesis by (simp only:)
qed

lemma nextRequestIds_from:
  "requestId c + int n \<le> Int_max \<Longrightarrow>
     nextRequestIds n c
       = (Inr (map (\<lambda>k. requestId c + int k) [1..<Suc n]), c\<lparr>requestId := requestId c + int n\<rparr>)"
proof (induction n arbitrary: c)
  case 0
  then show ?case by simp
next
  case (Suc n)
  let ?c' = "c\<lparr>requestId := requestId c + 1\<rparr>"
  have step: "nextRequestId c = (Inr (requestId c + 1), ?c')"
    using Suc.prems by (simp add: nextRequestId_def)
  have "requestId ?c' + int n \<le> Int_max"
    using Suc.prems by simp
  from Suc.IH [OF this]
  have rest: "nextRequestIds n ?c'
         = (Inr (map (\<lambda>k. requestId c + 1 + int k) [1..<Suc n]),
            c\<lparr>requestId := requestId c + 1 + int n\<rparr>)"
    by simp
  have m: "map (\<lambda>k. requestId c + int k) [1..<Suc (Suc n)]
          = (requestId c + 1) # map (\<lambda>k. requestId c + 1 + int k) [1..<Suc n]"
    unfolding upt_1_Suc_Suc by (simp add: comp_def add.assoc del: upt_Suc)
  have e: "requestId c + int (Suc n) = requestId c + 1 + int n"
    by simp
  have "nextRequestIds (Suc n) c
          = (Inr ((requestId c + 1) # map (\<lambda>k. requestId c + 1 + int k) [1..<Suc n]),
             c\<lparr>requestId := requestId c + 1 + int n\<rparr>)"
    by (simp only: nextRequestIds.simps step rest prod.case sum.case)
  then show ?case
    by (simp only: m e)
qed

text \<open>A call whose start-up is cancelled ends there: no id is taken.\<close>

lemma call_cancelled:
  assumes "\<not> isWorkletStarted c" and "cancelled"
  shows "call J cancelled method params c = (Inl CancellationError, c)"
  using assms by (simp add: call_def ensureWorkletStarted_def)

text \<open>A call that gets past the start-up takes exactly one id, whatever happens next.\<close>

lemma requestId_call:
  assumes "requestId c < Int_max" and "isWorkletStarted c \<or> \<not> cancelled"
  shows "requestId (snd (call J cancelled method params c)) = requestId c + 1"
proof -
  define c0 where "c0 = snd (ensureWorkletStarted cancelled c)"
  let ?c1 = "c0\<lparr>requestId := requestId c + 1\<rparr>"
  let ?request = "JObj [(''jsonrpc'', JStr ''2.0''), (''id'', JNum (requestId c + 1)),
                        (''method'', JStr method), (''params'', JObj params)]"
  have s: "ensureWorkletStarted cancelled c = (Inr (), c0)"
    unfolding c0_def using assms(2) by (rule ensureWorkletStarted_ok)
  have q: "requestId c0 = requestId c"
    by (simp add: c0_def)
  have n: "nextRequestId c0 = (Inr (requestId c + 1), ?c1)"
    using assms(1) by (simp add: nextRequestId_def q)
  have unfold: "call J cancelled method params c =
      (case data_withJSONObject J ?request of
         None \<Rightarrow> (Inl SerializationError, ?c1)
       | Some requestData \<Rightarrow>
           (case writeFramed_client requestData ?c1 of
              (Inl e, c2) \<Rightarrow> (Inl e, c2)
            | (Inr u, c2) \<Rightarrow>
                (case readFramed c2 of
                   (Inl e, c3) \<Rightarrow> (Inl e, c3)
                 | (Inr responseData, c3) \<Rightarrow>
                     (case jsonObject_with J responseData of
                        None \<Rightarrow> (Inl SerializationError, c3)
                      | Some (JObj response) \<Rightarrow>
                          (case map_of response ''error'' of
                             Some (JObj error) \<Rightarrow>
                               (let errorMessage =
                                      (case map_of error ''message'' of
                                         Some (JStr m) \<Rightarrow> m | _ \<Rightarrow> ''Unknown error'');
                                    errorCode =
                                      (case map_of error ''code'' of
                                         Some (JStr k) \<Rightarrow> k | _ \<Rightarrow> ''UNKNOWN'')
                                in (Inl (Thrown (rpcError errorCode errorMessage)), c3))
                           | _ \<Rightarrow>
                               (case map_of response ''result'' of
                                  Some (JObj result) \<Rightarrow> (Inr result, c3)
                                | _ \<Rightarrow> (Inl (Thrown (invalidResponse
                                            ''Missing result in response'')), c3)))
                      | Some _ \<Rightarrow>
                          (Inl (Thrown (invalidResponse ''Invalid JSON response'')), c3)))))"
    by (simp add: call_def s n Let_def cong: option.case_cong sum.case_cong prod.case_cong)
  show ?thesis
  proof (cases "data_withJSONObject J ?request")
    case None
    then show ?thesis by (simp add: unfold)
  next
    case (Some requestData)
    obtain r2 c2 where w: "writeFramed_client requestData ?c1 = (r2, c2)"
      by (cases "writeFramed_client requestData ?c1")
    have q2: "requestId c2 = requestId c + 1"
      using requestId_writeFramed_client [of requestData ?c1] by (simp add: w)
    show ?thesis
    proof (cases r2)
      case (Inl e)
      then show ?thesis by (simp add: unfold Some w q2)
    next
      case (Inr u)
      obtain r3 c3 where f: "readFramed c2 = (r3, c3)"
        by (cases "readFramed c2")
      have q3: "requestId c3 = requestId c + 1"
        using requestId_readFramed [of c2] by (simp add: f q2)
      show ?thesis
        by (simp add: unfold Some w Inr f q3 Let_def
            split: sum.split option.split json.split)
    qed
  qed
qed

text \<open>
  A first call made by a task that is cancelled: \<open>ensureWorkletStarted\<close> throws at the
  sleep, the call ends with that error, and the counter is still 0. This call has not
  incremented the counter.
\<close>

theorem cancelled_call_takes_no_id_counterexample:
  "call example_serialization True ''dispose'' [] (WDKClient_init (example_pipe []))
     = (Inl CancellationError, WDKClient_init (example_pipe []))
   \<and> requestId (snd (call example_serialization True ''dispose'' []
                        (WDKClient_init (example_pipe [])))) = 0"
proof -
  have "\<not> isWorkletStarted (WDKClient_init (example_pipe []))"
    by (simp add: WDKClient_init_def)
  then have "call example_serialization True ''dispose'' [] (WDKClient_init (example_pipe []))
               = (Inl CancellationError, WDKClient_init (example_pipe []))"
    by (rule call_cancelled) simp
  then show ?thesis
    by (simp add: WDKClient_init_def)
qed

text \<open>
  C7, as the code has it. The counter starts at 0, so the first id is 1. \<open>n\<close>
  allocations in a row, each one whole step of the serial queue, hand out the next \<open>n\<close>
  integers in order: strictly increasing, no id twice. A \<open>call\<close> takes its id after the
  worklet start-up: a call that gets past the start-up leaves the counter exactly one
  higher whatever its later outcome, and a call whose start-up is cancelled fails with
  that error and leaves the counter as it was. (All this short of \<open>Int.max\<close>, where the
  increment traps.)
\<close>

theorem request_ids_strictly_increasing:
  assumes "requestId c + int n \<le> Int_max"
  shows "requestId (WDKClient_init pipe) = 0
         \<and> fst (nextRequestId (WDKClient_init pipe)) = Inr 1
         \<and> fst (nextRequestIds n c) = Inr (map (\<lambda>k. requestId c + int k) [1..<Suc n])
         \<and> requestId (snd (nextRequestIds n c)) = requestId c + int n
         \<and> sorted_wrt (<) (map (\<lambda>k. requestId c + int k) [1..<Suc n])
         \<and> distinct (map (\<lambda>k. requestId c + int k) [1..<Suc n])
         \<and> (requestId c < Int_max \<and> (isWorkletStarted c \<or> \<not> cancelled) \<longrightarrow>
              requestId (snd (call J cancelled method params c)) = requestId c + 1)
         \<and> (\<not> isWorkletStarted c \<and> cancelled \<longrightarrow>
              call J cancelled method params c = (Inl CancellationError, c))"
proof -
  have a: "requestId (WDKClient_init pipe) = 0"
    by (simp add: WDKClient_init_def)
  have b: "fst (nextRequestId (WDKClient_init pipe)) = Inr 1"
    by (simp add: nextRequestId_def WDKClient_init_def Int_max_def)
  have ids: "fst (nextRequestIds n c) = Inr (map (\<lambda>k. requestId c + int k) [1..<Suc n])"
    and st: "requestId (snd (nextRequestIds n c)) = requestId c + int n"
    by (simp_all only: nextRequestIds_from [OF assms] fst_conv snd_conv) simp
  have mono: "sorted_wrt (<) (map (\<lambda>k. requestId c + int k) [1..<Suc n])"
    by (simp add: sorted_wrt_map del: upt_Suc)
  then have dist: "distinct (map (\<lambda>k. requestId c + int k) [1..<Suc n])"
    by (simp only: strict_sorted_iff)
  have cl: "requestId c < Int_max \<and> (isWorkletStarted c \<or> \<not> cancelled) \<longrightarrow>
              requestId (snd (call J cancelled method params c)) = requestId c + 1"
    by (simp add: requestId_call)
  have cn: "\<not> isWorkletStarted c \<and> cancelled \<longrightarrow>
              call J cancelled method params c = (Inl CancellationError, c)"
    by (simp add: call_cancelled)
  from a b ids st mono dist cl cn show ?thesis
    by (intro conjI)
qed

theorem request_ids_strictly_increasing_witness:
  "fst (nextRequestIds 3 (WDKClient_init (example_pipe []))) = Inr [1, 2, 3]
   \<and> requestId (snd (nextRequestIds 3 (WDKClient_init (example_pipe [])))) = 3
   \<and> requestId (snd (call example_serialization False ''dispose'' []
                        (WDKClient_init (example_pipe [])))) = 1
   \<and> requestId (snd (call example_serialization True ''dispose'' []
                        (snd (ensureWorkletStarted False (WDKClient_init (example_pipe [])))))) = 1"
proof -
  let ?c = "WDKClient_init (example_pipe [])"
  let ?d = "snd (ensureWorkletStarted False ?c)"
  have z: "requestId ?c = 0"
    by (simp add: WDKClient_init_def)
  have h: "requestId ?c + int 3 \<le> Int_max"
    by (simp add: z Int_max_def)
  have l: "requestId ?c < Int_max"
    by (simp add: z Int_max_def)
  have u: "map (\<lambda>k. requestId ?c + int k) [1..<Suc 3] = [1, 2, 3]"
    by (simp add: z upt_rec)
  note t = request_ids_strictly_increasing [OF h, of "example_pipe []" False example_serialization
        "''dispose''" "[]"]
  have 1: "fst (nextRequestIds 3 ?c) = Inr [1, 2, 3]"
    using t u by (simp only:)
  have 2: "requestId (snd (nextRequestIds 3 ?c)) = 3"
    using t z by simp
  have 3: "requestId (snd (call example_serialization False ''dispose'' [] ?c)) = 1"
    using t l z by simp
  have zd: "requestId ?d = 0" and sd: "isWorkletStarted ?d"
    by (simp_all add: ensureWorkletStarted_def WDKClient_init_def)
  have hd: "requestId ?d + int 0 \<le> Int_max"
    by (simp add: z Int_max_def)
  have 4: "requestId (snd (call example_serialization True ''dispose'' [] ?d)) = 1"
    using request_ids_strictly_increasing [OF hd, of "example_pipe []" True example_serialization
        "''dispose''" "[]"] sd zd
    by (simp add: Int_max_def)
  from 1 2 3 4 show ?thesis by (intro conjI)
qed

section \<open>Responses on the client\<close>

lemma call_reads_next_frame:
  assumes "isWorkletStarted c \<or> \<not> cancelled"
    and "requestId c < Int_max"
    and "ipc (snd (ensureWorkletStarted cancelled c)) = Some ch"
    and "data_withJSONObject J
           (JObj [(''jsonrpc'', JStr ''2.0''), (''id'', JNum (requestId c + 1)),
                  (''method'', JStr method), (''params'', JObj params)]) = Some requestData"
    and "length requestData \<le> UInt32_max"
    and "pending_bytes (snd (ensureWorkletStarted cancelled c)) = writeFramed payload @ rest"
    and "0 < length payload" and "length payload < 10000000"
    and "jsonObject_with J payload = Some (JObj response)"
  shows "fst (call J cancelled method params c)
           = (case map_of response ''error'' of
                Some (JObj error) \<Rightarrow>
                  Inl (Thrown (rpcError
                    (case map_of error ''code'' of Some (JStr k) \<Rightarrow> k | _ \<Rightarrow> ''UNKNOWN'')
                    (case map_of error ''message'' of Some (JStr m) \<Rightarrow> m | _ \<Rightarrow> ''Unknown error'')))
              | _ \<Rightarrow>
                  (case map_of response ''result'' of
                     Some (JObj result) \<Rightarrow> Inr result
                   | _ \<Rightarrow> Inl (Thrown (invalidResponse ''Missing result in response''))))
         \<and> map_option outgoing (ipc (snd (call J cancelled method params c)))
             = Some (outgoing ch @ [writeFramed requestData])
         \<and> pending_bytes (snd (call J cancelled method params c)) = rest
         \<and> requestId (snd (call J cancelled method params c)) = requestId c + 1"
proof -
  define c0 where "c0 = snd (ensureWorkletStarted cancelled c)"
  let ?c1 = "c0\<lparr>requestId := requestId c + 1\<rparr>"
  let ?ch2 = "ch\<lparr>outgoing := outgoing ch @ [writeUInt32BE (length requestData) @ requestData]\<rparr>"
  let ?c2 = "?c1\<lparr>ipc := Some ?ch2\<rparr>"
  have s: "ensureWorkletStarted cancelled c = (Inr (), c0)"
    unfolding c0_def using assms(1) by (rule ensureWorkletStarted_ok)
  have q: "requestId c0 = requestId c"
    by (simp add: c0_def)
  have i0: "ipc c0 = Some ch" and p0: "pending_bytes c0 = writeFramed payload @ rest"
    using assms(3,6) by (simp_all add: c0_def)
  have n: "nextRequestId c0 = (Inr (requestId c + 1), ?c1)"
    using assms(2) by (simp add: nextRequestId_def q)
  have w: "writeFramed_client requestData ?c1 = (Inr (), ?c2)"
    using i0 assms(5) by (simp add: writeFramed_client_def Let_def)
  have i2: "ipc ?c2 = Some ?ch2"
    by simp
  have p2: "pending_bytes ?c2 = writeFramed payload @ rest"
    using i0 p0 by (simp add: pending_bytes_def)
  obtain r3 c3 where f: "readFramed ?c2 = (r3, c3)"
    by (cases "readFramed ?c2")
  from readFramed_stream [OF i2 p2 assms(7,8)]
  have r3: "r3 = Inr payload" and p3: "pending_bytes c3 = rest"
    and o3: "\<exists>ch'. ipc c3 = Some ch' \<and> outgoing ch' = outgoing ?ch2"
    and q3: "requestId c3 = requestId c + 1"
    by (simp_all add: f)
  have o3': "map_option outgoing (ipc c3) = Some (outgoing ch @ [writeFramed requestData])"
    using o3 by (auto simp add: writeFramed_def)
  have c: "call J cancelled method params c =
      (case map_of response ''error'' of
         Some (JObj error) \<Rightarrow>
           (Inl (Thrown (rpcError
             (case map_of error ''code'' of Some (JStr k) \<Rightarrow> k | _ \<Rightarrow> ''UNKNOWN'')
             (case map_of error ''message'' of Some (JStr m) \<Rightarrow> m | _ \<Rightarrow> ''Unknown error''))), c3)
       | _ \<Rightarrow>
           (case map_of response ''result'' of
              Some (JObj result) \<Rightarrow> (Inr result, c3)
            | _ \<Rightarrow> (Inl (Thrown (invalidResponse ''Missing result in response'')), c3)))"
    by (simp add: call_def s n assms(4,9) w f r3 Let_def
        cong: option.case_cong json.case_cong)
  have sc: "snd (call J cancelled method params c) = c3"
    unfolding c by (simp split: option.split json.split)
  have fc: "fst (call J cancelled method params c)
           = (case map_of response ''error'' of
                Some (JObj error) \<Rightarrow>
                  Inl (Thrown (rpcError
                    (case map_of error ''code'' of Some (JStr k) \<Rightarrow> k | _ \<Rightarrow> ''UNKNOWN'')
                    (case map_of error ''message'' of Some (JStr m) \<Rightarrow> m | _ \<Rightarrow> ''Unknown error'')))
              | _ \<Rightarrow>
                  (case map_of response ''result'' of
                     Some (JObj result) \<Rightarrow> Inr result
                   | _ \<Rightarrow> Inl (Thrown (invalidResponse ''Missing result in response''))))"
    unfolding c by (simp split: option.split json.split)
  show ?thesis
    unfolding sc by (intro conjI fc o3' p3 q3)
qed

text \<open>
  A client whose first call, with id 1, finds on the pipe a response carrying id 2, for
  which no call is waiting. The frame is not discarded: the call with id 1 returns its
  result.
\<close>

theorem response_id_ignored_counterexample:
  "get_prop example_response ''id'' = Some (JNum 2)
   \<and> fst (nextRequestId (snd (ensureWorkletStarted False
            (WDKClient_init (example_pipe [writeFramed (Buffer_from ''response-2'')]))))) = Inr 1
   \<and> fst (call example_serialization False ''dispose'' []
            (WDKClient_init (example_pipe [writeFramed (Buffer_from ''response-2'')])))
       = Inr [(''status'', JStr ''disposed'')]"
proof -
  let ?pipe = "example_pipe [writeFramed (Buffer_from ''response-2'')]"
  let ?c = "WDKClient_init ?pipe"
  have 0: "isWorkletStarted ?c \<or> \<not> False"
    by simp
  have 1: "requestId ?c < Int_max"
    by (simp add: WDKClient_init_def Int_max_def)
  have 2: "ipc (snd (ensureWorkletStarted False ?c)) = Some ?pipe"
    by (simp add: ensureWorkletStarted_def WDKClient_init_def)
  have 3: "data_withJSONObject example_serialization
             (JObj [(''jsonrpc'', JStr ''2.0''), (''id'', JNum (requestId ?c + 1)),
                    (''method'', JStr ''dispose''), (''params'', JObj [])])
             = Some (Buffer_from ''request'')"
    by (simp add: example_serialization_def)
  have 4: "length (Buffer_from ''request'') \<le> UInt32_max"
    by (simp add: Buffer_from_def UInt32_max_def)
  have 5: "pending_bytes (snd (ensureWorkletStarted False ?c))
             = writeFramed (Buffer_from ''response-2'') @ []"
    by (simp add: pending_bytes_def ensureWorkletStarted_def WDKClient_init_def example_pipe_def)
  have 6: "0 < length (Buffer_from ''response-2'')"
    and 7: "length (Buffer_from ''response-2'') < 10000000"
    by (simp_all add: Buffer_from_def)
  have 8: "jsonObject_with example_serialization (Buffer_from ''response-2'')
             = Some (JObj [(''jsonrpc'', JStr ''2.0''), (''id'', JNum 2),
                           (''result'', JObj [(''status'', JStr ''disposed'')])])"
    by (simp add: example_serialization_def example_response_def)
  have a: "get_prop example_response ''id'' = Some (JNum 2)"
    by (simp add: example_response_def)
  have b: "fst (nextRequestId (snd (ensureWorkletStarted False ?c))) = Inr 1"
    by (simp add: nextRequestId_def ensureWorkletStarted_def WDKClient_init_def Int_max_def)
  have c: "fst (call example_serialization False ''dispose'' [] ?c)
             = Inr [(''status'', JStr ''disposed'')]"
    using call_reads_next_frame [OF 0 1 2 3 4 5 6 7 8] by simp
  from a b c show ?thesis by (intro conjI)
qed

text \<open>
  C1, as the code has it. The client keeps no table of pending calls and never looks at
  the id of a response. A call (one that gets past the worklet start-up) writes its
  framed request to the pipe and takes the next frame on the pipe as its response,
  whatever id that frame carries: an \<open>error\<close> object makes it throw \<open>rpcError\<close>,
  otherwise a \<open>result\<close> object is returned, otherwise it throws \<open>invalidResponse\<close>.
  The frame is consumed by that call.
\<close>

theorem call_takes_next_frame:
  assumes "isWorkletStarted c \<or> \<not> cancelled"
    and "requestId c < Int_max"
    and "ipc (snd (ensureWorkletStarted cancelled c)) = Some ch"
    and "data_withJSONObject J
           (JObj [(''jsonrpc'', JStr ''2.0''), (''id'', JNum (requestId c + 1)),
                  (''method'', JStr method), (''params'', JObj params)]) = Some requestData"
    and "length requestData \<le> UInt32_max"
    and "pending_bytes (snd (ensureWorkletStarted cancelled c)) = writeFramed payload @ rest"
    and "0 < length payload" and "length payload < 10000000"
    and "jsonObject_with J payload = Some (JObj response)"
  shows "fst (call J cancelled method params c)
           = (case map_of response ''error'' of
                Some (JObj error) \<Rightarrow>
                  Inl (Thrown (rpcError
                    (case map_of error ''code'' of Some (JStr k) \<Rightarrow> k | _ \<Rightarrow> ''UNKNOWN'')
                    (case map_of error ''message'' of Some (JStr m) \<Rightarrow> m | _ \<Rightarrow> ''Unknown error'')))
              | _ \<Rightarrow>
                  (case map_of response ''result'' of
                     Some (JObj result) \<Rightarrow> Inr result
                   | _ \<Rightarrow> Inl (Thrown (invalidResponse ''Missing result in response''))))
         \<and> map_option outgoing (ipc (snd (call J cancelled method params c)))
             = Some (outgoing ch @ [writeFramed requestData])
         \<and> pending_bytes (snd (call J cancelled method params c)) = rest
         \<and> requestId (snd (call J cancelled method params c)) = requestId c + 1"
  using assms by (rule call_reads_next_frame)

theorem call_takes_next_frame_witness:
  "fst (call example_serialization False ''workletStart'' []
          (WDKClient_init (example_pipe [[0, 0], [0, 10] @ Buffer_from ''response-2'', [9]])))
     = Inr [(''status'', JStr ''disposed'')]
   \<and> map_option outgoing (ipc (snd (call example_serialization False ''workletStart'' []
          (WDKClient_init (example_pipe [[0, 0], [0, 10] @ Buffer_from ''response-2'', [9]])))))
     = Some [writeFramed (Buffer_from ''request'')]
   \<and> pending_bytes (snd (call example_serialization False ''workletStart'' []
          (WDKClient_init (example_pipe [[0, 0], [0, 10] @ Buffer_from ''response-2'', [9]]))))
     = [9]"
proof -
  let ?pipe = "example_pipe [[0, 0], [0, 10] @ Buffer_from ''response-2'', [9]]"
  let ?c = "WDKClient_init ?pipe"
  have 0: "isWorkletStarted ?c \<or> \<not> False"
    by simp
  have 1: "requestId ?c < Int_max"
    by (simp add: WDKClient_init_def Int_max_def)
  have 2: "ipc (snd (ensureWorkletStarted False ?c)) = Some ?pipe"
    by (simp add: ensureWorkletStarted_def WDKClient_init_def)
  have 3: "data_withJSONObject example_serialization
             (JObj [(''jsonrpc'', JStr ''2.0''), (''id'', JNum (requestId ?c + 1)),
                    (''method'', JStr ''workletStart''), (''params'', JObj [])])
             = Some (Buffer_from ''request'')"
    by (simp add: example_serialization_def)
  have 4: "length (Buffer_from ''request'') \<le> UInt32_max"
    by (simp add: Buffer_from_def UInt32_max_def)
  have "writeUInt32BE (length (Buffer_from ''response-2'')) = [0, 0, 0, 10]"
    by (simp add: Buffer_from_def writeUInt32BE_def)
  then have 5: "pending_bytes (snd (ensureWorkletStarted False ?c))
                  = writeFramed (Buffer_from ''response-2'') @ [9]"
    by (simp add: pending_bytes_def ensureWorkletStarted_def WDKClient_init_def example_pipe_def
        writeFramed_def)
  have 6: "0 < length (Buffer_from ''response-2'')"
    and 7: "length (Buffer_from ''response-2'') < 10000000"
    by (simp_all add: Buffer_from_def)
  have 8: "jsonObject_with example_serialization (Buffer_from ''response-2'')
             = Some (JObj [(''jsonrpc'', JStr ''2.0''), (''id'', JNum 2),
                           (''result'', JObj [(''status'', JStr ''disposed'')])])"
    by (simp add: example_serialization_def example_response_def)
  show ?thesis
    using call_takes_next_frame [OF 0 1 2 3 4 5 6 7 8] by (simp add: example_pipe_def)
qed

section \<open>Worklet: one response for every dispatched request\<close>

lemma is_response_for_success: "is_response_for id' (success_envelope id' result)"
  by (cases id') (simp_all add: is_response_for_def success_envelope_def object_def)

lemma is_response_for_error: "is_response_for id' (error_envelope id' t)"
proof (cases t)
  case (StructuredError se)
  then show ?thesis
    by (cases id'; cases "se_data se")
       (simp_all add: is_response_for_def error_envelope_def errorResponse_def object_def)
next
  case (PlainError e)
  then show ?thesis
    by (cases id')
       (simp_all add: is_response_for_def error_envelope_def errorResponse_def object_def)
qed

lemma String_js_string [simp]: "String_js num (Some (JStr m)) = Some m"
  by (simp add: String_js_def)

lemma handleJsonRpcMessage_writes:
  assumes "String_js (Number_toString X) (get_prop message ''method'') = Some name"
  shows "\<exists>context' response.
      handleJsonRpcMessage X message (context, written)
        = (context', written @ [writeFramed (Buffer_from (JSON_stringify X response))])
      \<and> is_response_for (get_prop message ''id'') response"
proof -
  obtain r context' where
    d: "dispatch X (get_prop message ''method'') (get_prop message ''params'') context = (r, context')"
    by (cases "dispatch X (get_prop message ''method'') (get_prop message ''params'') context")
  show ?thesis
  proof (cases r)
    case (Inl t)
    then have "handleJsonRpcMessage X message (context, written)
        = (context', written @ [writeFramed (Buffer_from (JSON_stringify X
             (error_envelope (get_prop message ''id'') t)))])"
      by (simp add: handleJsonRpcMessage_def assms d)
    then show ?thesis
      using is_response_for_error by blast
  next
    case (Inr v)
    show ?thesis
    proof (cases v)
      case (Json result)
      then have "handleJsonRpcMessage X message (context, written)
          = (context', written @ [writeFramed (Buffer_from (JSON_stringify X
               (success_envelope (get_prop message ''id'') result)))])"
        by (simp add: handleJsonRpcMessage_def assms d Inr)
      then show ?thesis
        using is_response_for_success by blast
    next
      case (NotJson m)
      then have "handleJsonRpcMessage X message (context, written)
          = (context', written @ [writeFramed (Buffer_from (JSON_stringify X
               (error_envelope (get_prop message ''id'') (PlainError (TypeError m)))))])"
        by (simp add: handleJsonRpcMessage_def assms d Inr)
      then show ?thesis
        using is_response_for_error by blast
    qed
  qed
qed

lemma dispatch_unknown:
  assumes "\<forall>m \<in> set method_names. method \<noteq> Some (JStr m)"
    and "String_js (Number_toString X) method = Some name"
  shows "dispatch X method params context
           = (Inl (PlainError (Error (''Unknown method: '' @ name))), context)"
  using assms by (simp add: dispatch_def method_names_def)

lemma handleJsonRpcMessage_unknown:
  assumes "\<forall>m \<in> set method_names. get_prop message ''method'' \<noteq> Some (JStr m)"
    and "String_js (Number_toString X) (get_prop message ''method'') = Some name"
  shows "handleJsonRpcMessage X message (context, written)
           = (context,
              written @ [writeFramed (Buffer_from (JSON_stringify X
                (object [(''jsonrpc'', Some (JStr ''2.0'')), (''id'', get_prop message ''id''),
                         (''error'', Some (JObj
                            [(''message'', JStr (''Unknown method: '' @ name)),
                             (''code'', JStr ''INTERNAL_ERROR'')]))])))])"
  by (simp add: handleJsonRpcMessage_def assms(2) dispatch_unknown [OF assms] error_envelope_def
      errorResponse_def Error_def object_def)

text \<open>
  A message whose \<open>method\<close> does not convert to a string, such as the object
  \<open>{toString: 1}\<close>, is not a request envelope; it is dispatched all the same when it
  says \<open>jsonrpc: '2.0'\<close>, and gets no response.
\<close>

lemma handleJsonRpcMessage_unconvertible_method:
  assumes "String_js (Number_toString X) (get_prop message ''method'') = None"
  shows "handleJsonRpcMessage X message (context, written) = (context, written)"
  by (simp add: handleJsonRpcMessage_def assms)

lemma handleJsonRpcMessage_method_object:
  "handleJsonRpcMessage X example_request_9 (context, written) = (context, written)"
  by (rule handleJsonRpcMessage_unconvertible_method)
     (simp add: example_request_9_def String_js_def)

text \<open>
  C5. For every request envelope handed to \<open>handleJsonRpcMessage\<close>, whatever the method
  name and the params, exactly one frame is written: the serialised response envelope
  with the request's id and either a result or an error object whose code and message
  are strings. This holds for every string as method name, and more generally for every
  method value that converts to a string. A method name the \<open>switch\<close> has no case for
  gets the error envelope with code \<open>INTERNAL_ERROR\<close> and message
  \<open>Unknown method: name\<close>, and the context is untouched.
\<close>

theorem handleJsonRpcMessage_one_response:
  "(get_prop message ''method'' = Some (JStr m) \<longrightarrow>
      (\<exists>context' response.
         handleJsonRpcMessage X message (context, written)
           = (context', written @ [writeFramed (Buffer_from (JSON_stringify X response))])
         \<and> is_response_for (get_prop message ''id'') response))
   \<and> (String_js (Number_toString X) (get_prop message ''method'') = Some name \<longrightarrow>
      (\<exists>context' response.
         handleJsonRpcMessage X message (context, written)
           = (context', written @ [writeFramed (Buffer_from (JSON_stringify X response))])
         \<and> is_response_for (get_prop message ''id'') response))
   \<and> (get_prop message ''method'' = Some (JStr m) \<and> m \<notin> set method_names \<longrightarrow>
        handleJsonRpcMessage X message (context, written)
          = (context,
             written @ [writeFramed (Buffer_from (JSON_stringify X
               (object [(''jsonrpc'', Some (JStr ''2.0'')), (''id'', get_prop message ''id''),
                        (''error'', Some (JObj
                           [(''message'', JStr (''Unknown method: '' @ m)),
                            (''code'', JStr ''INTERNAL_ERROR'')]))])))]))
   \<and> (String_js (Number_toString X) (get_prop message ''method'') = Some name
        \<and> (\<forall>k \<in> set method_names. get_prop message ''method'' \<noteq> Some (JStr k)) \<longrightarrow>
        handleJsonRpcMessage X message (context, written)
          = (context,
             written @ [writeFramed (Buffer_from (JSON_stringify X
               (object [(''jsonrpc'', Some (JStr ''2.0'')), (''id'', get_prop message ''id''),
                        (''error'', Some (JObj
                           [(''message'', JStr (''Unknown method: '' @ name)),
                            (''code'', JStr ''INTERNAL_ERROR'')]))])))]))"
proof -
  have a: "get_prop message ''method'' = Some (JStr m) \<longrightarrow>
      (\<exists>context' response.
         handleJsonRpcMessage X message (context, written)
           = (context', written @ [writeFramed (Buffer_from (JSON_stringify X response))])
         \<and> is_response_for (get_prop message ''id'') response)"
    using handleJsonRpcMessage_writes [of X message m "context" written] by simp
  have b: "String_js (Number_toString X) (get_prop message ''method'') = Some name \<longrightarrow>
      (\<exists>context' response.
         handleJsonRpcMessage X message (context, written)
           = (context', written @ [writeFramed (Buffer_from (JSON_stringify X response))])
         \<and> is_response_for (get_prop message ''id'') response)"
    using handleJsonRpcMessage_writes [of X message name "context" written] by blast
  have c: "get_prop message ''method'' = Some (JStr m) \<and> m \<notin> set method_names \<longrightarrow>
        handleJsonRpcMessage X message (context, written)
          = (context,
             written @ [writeFramed (Buffer_from (JSON_stringify X
               (object [(''jsonrpc'', Some (JStr ''2.0'')), (''id'', get_prop message ''id''),
                        (''error'', Some (JObj
                           [(''message'', JStr (''Unknown method: '' @ m)),
                            (''code'', JStr ''INTERNAL_ERROR'')]))])))])"
  proof
    assume h: "get_prop message ''method'' = Some (JStr m) \<and> m \<notin> set method_names"
    then have 1: "\<forall>k \<in> set method_names. get_prop message ''method'' \<noteq> Some (JStr k)"
      by auto
    have 2: "String_js (Number_toString X) (get_prop message ''method'') = Some m"
      using h by simp
    show "handleJsonRpcMessage X message (context, written)
          = (context,
             written @ [writeFramed (Buffer_from (JSON_stringify X
               (object [(''jsonrpc'', Some (JStr ''2.0'')), (''id'', get_prop message ''id''),
                        (''error'', Some (JObj
                           [(''message'', JStr (''Unknown method: '' @ m)),
                            (''code'', JStr ''INTERNAL_ERROR'')]))])))])"
      using 1 2 by (rule handleJsonRpcMessage_unknown)
  qed
  have d: "String_js (Number_toString X) (get_prop message ''method'') = Some name
        \<and> (\<forall>k \<in> set method_names. get_prop message ''method'' \<noteq> Some (JStr k)) \<longrightarrow>
        handleJsonRpcMessage X message (context, written)
          = (context,
             written @ [writeFramed (Buffer_from (JSON_stringify X
               (object [(''jsonrpc'', Some (JStr ''2.0'')), (''id'', get_prop message ''id''),
                        (''error'', Some (JObj
                           [(''message'', JStr (''Unknown method: '' @ name)),
                            (''code'', JStr ''INTERNAL_ERROR'')]))])))])"
    using handleJsonRpcMessage_unknown [of message X name "context" written] by blast
  from a b c d show ?thesis
    by (intro conjI)
qed

theorem handleJsonRpcMessage_one_response_witness:
  "handleJsonRpcMessage example_externals example_request_8 (\<lparr>wdk = None\<rparr>, [])
     = (\<lparr>wdk = None\<rparr>,
        [writeFramed (Buffer_from (JSON_stringify example_externals
           (JObj [(''jsonrpc'', JStr ''2.0''), (''id'', JNum 8),
                  (''error'', JObj [(''message'', JStr ''Unknown method: splitMnemonic''),
                                    (''code'', JStr ''INTERNAL_ERROR'')])])))])"
proof -
  have m: "get_prop example_request_8 ''method'' = Some (JStr ''splitMnemonic'')"
    and i: "get_prop example_request_8 ''id'' = Some (JNum 8)"
    by (simp_all add: example_request_8_def)
  have u: "''splitMnemonic'' \<notin> set method_names"
    by (simp add: method_names_def)
  show ?thesis
    using handleJsonRpcMessage_one_response
            [of example_request_8 "''splitMnemonic''" example_externals "\<lparr>wdk = None\<rparr>" "[]"]
          m u
    by (simp add: i object_def)
qed

section \<open>Worklet: a frame that is not JSON\<close>

lemma toString_Buffer_from [simp]: "toString (Buffer_from s) = s"
proof -
  have "\<And>c. char_of (unat (word_of_nat (of_char c) :: byte)) = c"
    by (simp add: unat_of_nat)
  then show ?thesis
    by (simp add: toString_def Buffer_from_def comp_def)
qed

lemma processFramedData_frame:
  assumes "length p < 2 ^ 32" and "js_readBuffer st = []"
  shows "processFramedData X (writeFramed p @ rest) st
           = (case processFramedLoop (processMessage X) rest
                     (processMessage X p (js_context st, js_written st)) of
                (rest', (context, written)) \<Rightarrow>
                  \<lparr>js_readBuffer = rest', js_context = context, js_written = written\<rparr>)"
  using assms by (simp add: processFramedData_def processFramedLoop_frame)

lemma processFramedData_skips:
  assumes "JSON_parse X (toString p) = None" and "length p < 2 ^ 32"
    and "js_readBuffer st = []"
  shows "processFramedData X (writeFramed p) st = st
         \<and> processFramedData X (writeFramed p @ rest) st = processFramedData X rest st"
proof -
  have skip: "processMessage X p (js_context st, js_written st) = (js_context st, js_written st)"
    by (simp add: processMessage_def assms(1))
  have "processFramedData X (writeFramed p @ rest) st
          = (case processFramedLoop (processMessage X) rest (js_context st, js_written st) of
               (rest', (context, written)) \<Rightarrow>
                 \<lparr>js_readBuffer = rest', js_context = context, js_written = written\<rparr>)"
    by (simp only: processFramedData_frame [OF assms(2,3)] skip)
  also have "\<dots> = processFramedData X rest st"
    by (simp add: processFramedData_def assms(3))
  finally have a: "processFramedData X (writeFramed p @ rest) st = processFramedData X rest st" .
  have "processFramedData X (writeFramed p @ []) st
          = \<lparr>js_readBuffer = [], js_context = js_context st, js_written = js_written st\<rparr>"
    by (simp only: processFramedData_frame [OF assms(2,3)] skip processFramedLoop_Nil prod.case)
  also have "\<dots> = st"
    using assms(3) by (cases st) simp
  finally show ?thesis
    using a by simp
qed

text \<open>
  The text \<open>{broken\<close> is not JSON. The worklet, fed the frame that carries it, writes
  nothing: no error response goes back.
\<close>

theorem malformed_json_counterexample:
  "JSON_parse example_externals (toString (Buffer_from ''{broken'')) = None
   \<and> js_written (processFramedData example_externals (writeFramed (Buffer_from ''{broken''))
                   worklet_init) = []"
proof -
  have a: "JSON_parse example_externals (toString (Buffer_from ''{broken'')) = None"
    by (simp add: example_externals_def)
  have b: "length (Buffer_from ''{broken'') < 2 ^ 32"
    by (simp add: Buffer_from_def)
  have c: "js_readBuffer worklet_init = []"
    by (simp add: worklet_init_def)
  have "processFramedData example_externals (writeFramed (Buffer_from ''{broken'')) worklet_init
          = worklet_init"
    using processFramedData_skips [OF a b c] by simp
  then show ?thesis
    using a by (simp add: worklet_init_def)
qed

text \<open>
  C8, as the code has it. When the payload of a decoded frame is not well-formed JSON,
  the worklet drops the frame: no response is written for it (the error is only logged),
  the state is unchanged, and the frames that follow are processed as if the malformed
  one had not been sent.
\<close>

theorem malformed_json_frame_skipped:
  assumes "JSON_parse X (toString p) = None" and "length p < 2 ^ 32"
    and "js_readBuffer st = []"
  shows "processFramedData X (writeFramed p) st = st
         \<and> processFramedData X (writeFramed p @ rest) st = processFramedData X rest st"
  using assms by (rule processFramedData_skips)

theorem malformed_json_frame_skipped_witness:
  "processFramedData example_externals (writeFramed (Buffer_from ''not json'')) worklet_init
     = worklet_init
   \<and> processFramedData example_externals
        (writeFramed (Buffer_from ''not json'') @ writeFramed (Buffer_from ''request-7''))
        worklet_init
     = processFramedData example_externals (writeFramed (Buffer_from ''request-7'')) worklet_init"
proof -
  have a: "JSON_parse example_externals (toString (Buffer_from ''not json'')) = None"
    by (simp add: example_externals_def)
  have b: "length (Buffer_from ''not json'') < 2 ^ 32"
    by (simp add: Buffer_from_def)
  have c: "js_readBuffer worklet_init = []"
    by (simp add: worklet_init_def)
  show ?thesis
    using malformed_json_frame_skipped [OF a b c] by simp
qed

section \<open>Worklet: dispose\<close>

lemma dispose_result:
  "dispose context = (Inr (JObj [(''status'', JStr ''disposed'')]), context\<lparr>wdk := None\<rparr>)"
  by (cases "wdk context") (simp_all add: dispose_def)

lemma handleJsonRpcMessage_dispose:
  assumes "get_prop message ''method'' = Some (JStr ''dispose'')"
  shows "handleJsonRpcMessage X message (context, written)
           = (context\<lparr>wdk := None\<rparr>,
              written @ [writeFramed (Buffer_from (JSON_stringify X
                (success_envelope (get_prop message ''id'')
                   (JObj [(''status'', JStr ''disposed'')]))))])"
  by (simp add: handleJsonRpcMessage_def dispatch_def assms withErrorHandling_def
      returns_json_def dispose_result String_js_def)

text \<open>
  C10. \<open>dispose\<close> always returns \<open>{status: 'disposed'}\<close>, also when no instance is
  installed; afterwards the slot is \<open>null\<close>; disposing again gives the same result and
  the same state. Through the dispatcher, a \<open>dispose\<close> request is answered with that
  result and leaves the slot \<open>null\<close>.
\<close>

theorem dispose_idempotent:
  "fst (dispose context) = Inr (JObj [(''status'', JStr ''disposed'')])
   \<and> wdk (snd (dispose context)) = None
   \<and> dispose (context\<lparr>wdk := None\<rparr>)
       = (Inr (JObj [(''status'', JStr ''disposed'')]), context\<lparr>wdk := None\<rparr>)
   \<and> dispose (snd (dispose context)) = dispose context
   \<and> (get_prop message ''method'' = Some (JStr ''dispose'') \<longrightarrow>
        handleJsonRpcMessage X message (context, written)
          = (context\<lparr>wdk := None\<rparr>,
             written @ [writeFramed (Buffer_from (JSON_stringify X
               (success_envelope (get_prop message ''id'')
                  (JObj [(''status'', JStr ''disposed'')]))))]))"
  using handleJsonRpcMessage_dispose [of message X "context" written]
  by (simp add: dispose_result)

theorem dispose_idempotent_witness:
  "handleJsonRpcMessage example_externals example_request_7
       (\<lparr>wdk = Some (WDK_new [1, 2, 3])\<rparr>, [])
     = (\<lparr>wdk = None\<rparr>,
        [writeFramed (Buffer_from (JSON_stringify example_externals
           (JObj [(''jsonrpc'', JStr ''2.0''), (''id'', JNum 7),
                  (''result'', JObj [(''status'', JStr ''disposed'')])])))])
   \<and> dispose \<lparr>wdk = None\<rparr> = (Inr (JObj [(''status'', JStr ''disposed'')]), \<lparr>wdk = None\<rparr>)"
proof -
  have m: "get_prop example_request_7 ''method'' = Some (JStr ''dispose'')"
    and i: "get_prop example_request_7 ''id'' = Some (JNum 7)"
    by (simp_all add: example_request_7_def)
  have a: "handleJsonRpcMessage example_externals example_request_7
       (\<lparr>wdk = Some (WDK_new [1, 2, 3])\<rparr>, [])
     = (\<lparr>wdk = None\<rparr>,
        [writeFramed (Buffer_from (JSON_stringify example_externals
           (JObj [(''jsonrpc'', JStr ''2.0''), (''id'', JNum 7),
                  (''result'', JObj [(''status'', JStr ''disposed'')])])))])"
    using dispose_idempotent [of "\<lparr>wdk = Some (WDK_new [1, 2, 3])\<rparr>" example_request_7
        example_externals "[]"] m
    by (simp add: i success_envelope_def object_def)
  have b: "dispose \<lparr>wdk = None\<rparr> = (Inr (JObj [(''status'', JStr ''disposed'')]), \<lparr>wdk = None\<rparr>)"
    using dispose_idempotent [of "\<lparr>wdk = None\<rparr>" example_request_7 example_externals "[]"]
    by simp
  from a b show ?thesis by (rule conjI)
qed

section \<open>Worklet: initializeWDK with invalid params\<close>

lemma initializeWDK_validation_empty: "\<exists>e. initializeWDK_validation X (JObj []) = Inl e"
  by (simp add: initializeWDK_validation_def split: option.split sum.split)

lemma initializeWDK_validation_error:
  assumes "truthy (Some i)" and "typeof_object (Some i)"
    and "validateRequest (Some i) (initializeWDK_validation X i) ''Init'' = Inl e"
  shows "initializeWDK X (Some i) (context\<lparr>wdk := Some w\<rparr>)
           = (Inl e, context\<lparr>wdk := Some (WDK_dispose w)\<rparr>)"
  using assms by (simp add: initializeWDK_def Let_def)

text \<open>
  The sibling handler \<open>registerWallet\<close> validates first: a validation error leaves the
  context as it was.
\<close>

lemma registerWallet_validation_error:
  assumes "r \<noteq> JNull"
    and "validateRequest (Some r)
           (case validateNonEmptyString X (get_prop r ''config'') ''config'' of
              Some e \<Rightarrow> Inl e
            | None \<Rightarrow> validateJSON X (get_prop r ''config'') ''config'')
           ''RegisterWalletRequest'' = Inl e"
  shows "registerWallet X (Some r) context = (Inl e, context)"
  using assms by (cases r) (auto simp add: registerWallet_def)

text \<open>
  C6. \<open>initializeWDK\<close> called with an object whose fields do not validate, while the
  context holds an instance: the call fails, and the instance in the context has been
  disposed all the same. The empty object \<open>{}\<close> is such an input whatever the
  validators are.
\<close>

theorem initializeWDK_disposes_before_validation:
  "isl (fst (initializeWDK X (Some (JObj [])) (ctx\<lparr>wdk := Some w\<rparr>)))
   \<and> snd (initializeWDK X (Some (JObj [])) (ctx\<lparr>wdk := Some w\<rparr>))
       = ctx\<lparr>wdk := Some (WDK_dispose w)\<rparr>
   \<and> (truthy (Some i) \<and> typeof_object (Some i)
        \<and> validateRequest (Some i) (initializeWDK_validation X i) ''Init'' = Inl e \<longrightarrow>
        initializeWDK X (Some i) (ctx\<lparr>wdk := Some w\<rparr>)
          = (Inl e, ctx\<lparr>wdk := Some (WDK_dispose w)\<rparr>))"
proof -
  obtain e0 where "initializeWDK_validation X (JObj []) = Inl e0"
    using initializeWDK_validation_empty by blast
  then obtain e1 where
    "validateRequest (Some (JObj [])) (initializeWDK_validation X (JObj [])) ''Init'' = Inl e1"
    by (simp add: validateRequest_def)
  then have "initializeWDK X (Some (JObj [])) (ctx\<lparr>wdk := Some w\<rparr>)
               = (Inl e1, ctx\<lparr>wdk := Some (WDK_dispose w)\<rparr>)"
    by (intro initializeWDK_validation_error) simp_all
  then show ?thesis
    using initializeWDK_validation_error [where i = i and X = X and e = e and w = w] by simp
qed

theorem initializeWDK_disposes_before_validation_witness:
  "initializeWDK example_externals (Some (JObj [(''encryptionKey'', JStr ''a2V5'')]))
       \<lparr>wdk = Some (WDK_new [1, 2, 3])\<rparr>
     = (Inl \<lparr>err_name = ''Error'', err_message = ''config must be a non-empty string'',
             err_code = Some ''BAD_REQUEST''\<rparr>,
        \<lparr>wdk = Some \<lparr>seed = [1, 2, 3], calls = [Dispose]\<rparr>\<rparr>)"
proof -
  let ?i = "JObj [(''encryptionKey'', JStr ''a2V5'')]"
  let ?e = "\<lparr>err_name = ''Error'', err_message = ''config must be a non-empty string'',
             err_code = Some ''BAD_REQUEST''\<rparr>"
  have v: "validateRequest (Some ?i) (initializeWDK_validation example_externals ?i) ''Init''
             = Inl ?e"
    by (simp add: validateRequest_def initializeWDK_validation_def example_externals_def
        example_validate_string_def Error_def BAD_REQUEST_def)
  show ?thesis
    using initializeWDK_disposes_before_validation
            [where X = example_externals and w = "WDK_new [1, 2, 3]" and i = ?i and e = ?e
               and ctx = "\<lparr>wdk = None\<rparr>"] v
    by (simp add: WDK_dispose_def WDK_new_def)
qed

end
